theory Spec2Isabelle
  imports Main
begin

section \<open>Data model\<close>

text \<open>
  The timer and cooldown state machine of the assistant: the class \<open>TimerService\<close> (the
  scheduling core and its recovery routine) and the timer and cooldown part of
  \<open>StorageService\<close> (the durable ledger).

  Conventions of the embedding.
  \<^item> \<open>Date.now()\<close> is the argument \<open>now\<close> (milliseconds) of every operation that reads the
    clock (recovery, which reads it several times between awaited queries, takes a record
    of readings); JavaScript numbers are \<open>int\<close> (all values are integers far below
    \<open>2^53\<close>), and \<open>Math.floor (x / 1000)\<close> is \<open>x div 1000\<close>.
  \<^item> \<open>config.app\<close> is the argument \<open>cfg\<close>.
  \<^item> A \<open>TimerState\<close> is a mutable object that the map \<open>timers\<close> and the closures handed to
    \<open>setTimeout\<close> share by reference, so the service keeps a store \<open>heap\<close> of objects and
    the map holds references.
  \<^item> The timeouts armed in the event loop are the map \<open>pending\<close>: \<open>setTimeout\<close> adds an
    entry under a fresh handle, \<open>clearTimeout\<close> removes it, and \<open>fire\<close> is the event loop
    running a due timeout. An entry records the delay handed to \<open>setTimeout\<close> (Node
    itself replaces a delay outside \<open>1 .. 2^31 - 1\<close> by \<open>1\<close>); when a timeout runs is the
    event loop's choice and no result below depends on it.
  \<^item> \<open>emit\<close> appends to the list \<open>emitted\<close>; \<open>console.error\<close> appends to \<open>console\<close>.
    Listeners are assumed not to throw.
  \<^item> The ledger writes the scheduling core starts without awaiting them are taken to
    settle at the instant of the call, and the database itself is taken to work (no SQLite
    error); the one rejection the storage code raises itself, \<open>Conversation not found\<close>,
    is modelled.
\<close>

type_synonym ChatId = string
type_synonym handle = nat
type_synonym ref = nat

record AppSettings =
  responseDelayMs :: int
  cooldownPeriodMs :: int

record TimerState =
  chatId :: ChatId
  responseTimer :: "handle option"
  cooldownTimer :: "handle option"
  lastResponseTime :: "int option"
  isInCooldown :: bool

datatype event =
    RESPONSE_TIMER_EXPIRED ChatId
  | COOLDOWN_STARTED ChatId int
  | COOLDOWN_ENDED ChatId
  | TIMER_CANCELLED ChatId
  | GILAD_RESPONDED ChatId

text \<open>How the promise of the caller's \<open>callback()\<close> settles.\<close>

datatype callback = Fulfils | Fails

text \<open>
  The four closures the service hands to \<open>setTimeout\<close>: the one of \<open>startResponseTimer\<close>
  (it looks the state up by chat id and awaits the callback), the one of \<open>startCooldown\<close>
  (it captures the \<open>timerState\<close> object itself), and the two of
  \<open>restoreTimersFromDatabase\<close> (both look the state up by chat id).
\<close>

datatype closure =
    ResponseExpiry ChatId callback
  | CooldownEnd ref ChatId
  | RestoredCooldownEnd ChatId
  | RestoredResponseExpiry ChatId

record scheduled =
  closure :: closure
  delay :: int

subsection \<open>The ledger\<close>

datatype conv_status = Active | Inactive | Archived

datatype timer_kind = Response | Cooldown

text \<open>
  Rows of the tables \<open>conversations\<close>, \<open>cooldowns\<close> and \<open>timers\<close>, with the columns the
  timer code reads or writes. The columns \<open>id\<close>, \<open>conversation_id\<close>, \<open>start_time\<close>,
  \<open>end_time\<close> and \<open>is_active\<close> carry a prefix per table. Times are in seconds.
\<close>

record conversation_row =
  conv_id :: nat
  chat_id :: ChatId
  status :: conv_status
  last_activity :: int

record cooldown_row =
  cd_id :: nat
  cd_conversation_id :: nat
  cd_start_time :: int
  cd_end_time :: int
  cd_is_active :: bool

record timer_row =
  tm_id :: nat
  tm_conversation_id :: nat
  tm_start_time :: int
  tm_end_time :: "int option"
  timer_type :: timer_kind
  tm_is_active :: bool

record StorageService =
  conversations :: "conversation_row list"
  cooldowns :: "cooldown_row list"
  timer_rows :: "timer_row list"
  next_cooldown_id :: nat
  next_timer_id :: nat

datatype storage_error = ConversationNotFound

definition getConversation :: "ChatId \<Rightarrow> StorageService \<Rightarrow> conversation_row option" where
  "getConversation c db = find (\<lambda>r. chat_id r = c) (conversations db)"

definition getActiveConversations :: "StorageService \<Rightarrow> conversation_row list" where
  "getActiveConversations db =
     sort_key (\<lambda>r. - last_activity r) (filter (\<lambda>r. status r = Active) (conversations db))"

definition deactivateActiveCooldowns :: "ChatId \<Rightarrow> StorageService \<Rightarrow> StorageService" where
  "deactivateActiveCooldowns c db =
     (case getConversation c db of
        None \<Rightarrow> db
      | Some conv \<Rightarrow>
          db\<lparr>cooldowns :=
               map (\<lambda>r. if cd_conversation_id r = conv_id conv \<and> cd_is_active r
                          then r\<lparr>cd_is_active := False\<rparr> else r)
                   (cooldowns db)\<rparr>)"

definition storage_startCooldown ::
  "int \<Rightarrow> ChatId \<Rightarrow> int \<Rightarrow> StorageService \<Rightarrow> storage_error + nat \<times> StorageService" where
  "storage_startCooldown now c durationMs db =
     (case getConversation c db of
        None \<Rightarrow> Inl ConversationNotFound
      | Some conv \<Rightarrow>
          (let now_s = now div 1000;
               endTime = now_s + durationMs div 1000;
               db1 = deactivateActiveCooldowns c db;
               row = \<lparr>cd_id = next_cooldown_id db1, cd_conversation_id = conv_id conv,
                      cd_start_time = now_s, cd_end_time = endTime, cd_is_active = True\<rparr>
           in Inr (next_cooldown_id db1,
                   db1\<lparr>cooldowns := cooldowns db1 @ [row],
                       next_cooldown_id := Suc (next_cooldown_id db1)\<rparr>)))"

text \<open>The rows the two cooldown queries select: active, of the conversation, ending after now.\<close>

definition liveCooldowns :: "int \<Rightarrow> conversation_row \<Rightarrow> StorageService \<Rightarrow> cooldown_row list" where
  "liveCooldowns now_s conv db =
     filter (\<lambda>r. cd_conversation_id r = conv_id conv \<and> cd_is_active r \<and> cd_end_time r > now_s)
            (cooldowns db)"

definition storage_isInCooldown :: "int \<Rightarrow> ChatId \<Rightarrow> StorageService \<Rightarrow> bool" where
  "storage_isInCooldown now c db =
     (case getConversation c db of
        None \<Rightarrow> False
      | Some conv \<Rightarrow> length (liveCooldowns (now div 1000) conv db) > 0)"

definition storage_getRemainingCooldownTime :: "int \<Rightarrow> ChatId \<Rightarrow> StorageService \<Rightarrow> int" where
  "storage_getRemainingCooldownTime now c db =
     (case getConversation c db of
        None \<Rightarrow> 0
      | Some conv \<Rightarrow>
          (case sort_key (\<lambda>r. - cd_end_time r) (liveCooldowns (now div 1000) conv db) of
             [] \<Rightarrow> 0
           | row # _ \<Rightarrow> max 0 ((cd_end_time row - now div 1000) * 1000)))"

text \<open>
  \<open>durationMs\<close> is an optional parameter tested for truthiness: absent or \<open>0\<close> stores a
  \<open>NULL\<close> end time.
\<close>

definition storage_startTimer ::
  "int \<Rightarrow> ChatId \<Rightarrow> timer_kind \<Rightarrow> int option \<Rightarrow> StorageService
     \<Rightarrow> storage_error + nat \<times> StorageService" where
  "storage_startTimer now c kind durationMs db =
     (case getConversation c db of
        None \<Rightarrow> Inl ConversationNotFound
      | Some conv \<Rightarrow>
          (let now_s = now div 1000;
               endTime = (case durationMs of
                            None \<Rightarrow> None
                          | Some d \<Rightarrow> if d = 0 then None else Some (now_s + d div 1000));
               row = \<lparr>tm_id = next_timer_id db, tm_conversation_id = conv_id conv,
                      tm_start_time = now_s, tm_end_time = endTime, timer_type = kind,
                      tm_is_active = True\<rparr>
           in Inr (next_timer_id db,
                   db\<lparr>timer_rows := timer_rows db @ [row],
                      next_timer_id := Suc (next_timer_id db)\<rparr>)))"

definition storage_endTimer :: "int \<Rightarrow> nat \<Rightarrow> StorageService \<Rightarrow> StorageService" where
  "storage_endTimer now timerId db =
     db\<lparr>timer_rows :=
          map (\<lambda>r. if tm_id r = timerId
                     then r\<lparr>tm_is_active := False, tm_end_time := Some (now div 1000)\<rparr> else r)
              (timer_rows db)\<rparr>"

definition storage_getActiveTimers ::
  "ChatId \<Rightarrow> timer_kind option \<Rightarrow> StorageService \<Rightarrow> timer_row list" where
  "storage_getActiveTimers c kind db =
     (case getConversation c db of
        None \<Rightarrow> []
      | Some conv \<Rightarrow>
          sort_key (\<lambda>r. - tm_start_time r)
            (filter (\<lambda>r. tm_conversation_id r = conv_id conv \<and> tm_is_active r \<and>
                          (case kind of None \<Rightarrow> True | Some k \<Rightarrow> timer_type r = k))
                    (timer_rows db)))"

subsection \<open>The service state and its primitives\<close>

record TimerService =
  timers :: "ChatId \<rightharpoonup> ref"
  heap :: "ref \<Rightarrow> TimerState"
  nextRef :: nat
  pending :: "handle \<rightharpoonup> scheduled"
  nextHandle :: nat
  emitted :: "event list"
  console :: "string list"
  isInitialized :: bool
  storage :: StorageService

definition blank :: TimerState where
  "blank = \<lparr>chatId = [], responseTimer = None, cooldownTimer = None,
            lastResponseTime = None, isInCooldown = False\<rparr>"

text \<open>\<open>new TimerService(storage)\<close>, up to the first \<open>await\<close> of \<open>initializeService\<close>.\<close>

definition newTimerService :: "StorageService \<Rightarrow> TimerService" where
  "newTimerService db =
     \<lparr>timers = Map.empty, heap = (\<lambda>_. blank), nextRef = 0, pending = Map.empty,
      nextHandle = 0, emitted = [], console = [], isInitialized = False, storage = db\<rparr>"

definition setTimeout :: "closure \<Rightarrow> int \<Rightarrow> TimerService \<Rightarrow> handle \<times> TimerService" where
  "setTimeout f ms s =
     (nextHandle s,
      s\<lparr>pending := (pending s)(nextHandle s \<mapsto> \<lparr>closure = f, delay = ms\<rparr>),
        nextHandle := Suc (nextHandle s)\<rparr>)"

definition clearTimeout :: "handle \<Rightarrow> TimerService \<Rightarrow> TimerService" where
  "clearTimeout h s = s\<lparr>pending := (pending s)(h := None)\<rparr>"

definition emit :: "event \<Rightarrow> TimerService \<Rightarrow> TimerService" where
  "emit e s = s\<lparr>emitted := emitted s @ [e]\<rparr>"

definition console_error :: "string \<Rightarrow> TimerService \<Rightarrow> TimerService" where
  "console_error msg s = s\<lparr>console := console s @ [msg]\<rparr>"

text \<open>An object literal: a new \<open>TimerState\<close> object.\<close>

definition newObject :: "TimerState \<Rightarrow> TimerService \<Rightarrow> ref \<times> TimerService" where
  "newObject st s = (nextRef s, s\<lparr>heap := (heap s)(nextRef s := st), nextRef := Suc (nextRef s)\<rparr>)"

text \<open>An assignment to fields of the object \<open>r\<close>.\<close>

definition assign :: "ref \<Rightarrow> (TimerState \<Rightarrow> TimerState) \<Rightarrow> TimerService \<Rightarrow> TimerService" where
  "assign r f s = s\<lparr>heap := (heap s)(r := f (heap s r))\<rparr>"

text \<open>\<open>this.timers.set(chatId, timerState)\<close>\<close>

definition timers_set :: "ChatId \<Rightarrow> ref \<Rightarrow> TimerService \<Rightarrow> TimerService" where
  "timers_set c r s = s\<lparr>timers := (timers s)(c \<mapsto> r)\<rparr>"

text \<open>\<open>this.timers.get(chatId) || { chatId, isInCooldown: false }\<close>\<close>

definition getOrNew :: "ChatId \<Rightarrow> TimerService \<Rightarrow> ref \<times> TimerService" where
  "getOrNew c s =
     (case timers s c of
        Some r \<Rightarrow> (r, s)
      | None \<Rightarrow> newObject \<lparr>chatId = c, responseTimer = None, cooldownTimer = None,
                           lastResponseTime = None, isInCooldown = False\<rparr> s)"

section \<open>The scheduling core\<close>

text \<open>
  \<open>cancelTimer\<close> is declared \<open>void\<close>: every path ends by a bare \<open>return\<close> or by falling off
  the end, so a call evaluates to \<open>undefined\<close>. The local flag \<open>cancelled\<close> only guards
  the log line and the event.
\<close>

datatype js_value = Undefined | Boolean bool

definition cancelTimer :: "ChatId \<Rightarrow> TimerService \<Rightarrow> TimerService" where
  "cancelTimer c s =
     (case timers s c of
        None \<Rightarrow> s
      | Some r \<Rightarrow>
          (case responseTimer (heap s r) of
             None \<Rightarrow> s
           | Some h \<Rightarrow>
               emit (TIMER_CANCELLED c)
                 (assign r (\<lambda>st. st\<lparr>responseTimer := None\<rparr>) (clearTimeout h s))))"

definition cancelTimer_call :: "ChatId \<Rightarrow> TimerService \<Rightarrow> js_value \<times> TimerService" where
  "cancelTimer_call c s = (Undefined, cancelTimer c s)"

definition persistTimer :: "int \<Rightarrow> ChatId \<Rightarrow> int \<Rightarrow> TimerService \<Rightarrow> TimerService" where
  "persistTimer now c ms s =
     (case storage_startTimer now c Response (Some ms) (storage s) of
        Inl _ \<Rightarrow> console_error ''Failed to persist response timer:'' s
      | Inr (_, db) \<Rightarrow> s\<lparr>storage := db\<rparr>)"

definition persistCooldown :: "int \<Rightarrow> ChatId \<Rightarrow> int \<Rightarrow> TimerService \<Rightarrow> TimerService" where
  "persistCooldown now c ms s =
     (case storage_startCooldown now c ms (storage s) of
        Inl _ \<Rightarrow> console_error ''Failed to persist cooldown:'' s
      | Inr (_, db) \<Rightarrow> s\<lparr>storage := db\<rparr>)"

definition startResponseTimer ::
  "AppSettings \<Rightarrow> int \<Rightarrow> ChatId \<Rightarrow> callback \<Rightarrow> TimerService \<Rightarrow> TimerService" where
  "startResponseTimer cfg now c cb s =
     (let s1 = cancelTimer c s;
          (h, s2) = setTimeout (ResponseExpiry c cb) (responseDelayMs cfg) s1;
          (r, s3) = newObject \<lparr>chatId = c, responseTimer = Some h, cooldownTimer = None,
                               lastResponseTime = None, isInCooldown = False\<rparr> s2;
          s4 = timers_set c r s3
      in persistTimer now c (responseDelayMs cfg) s4)"

definition startCooldown :: "int \<Rightarrow> ChatId \<Rightarrow> int \<Rightarrow> TimerService \<Rightarrow> TimerService" where
  "startCooldown now c duration s =
     (let (r, s1) = getOrNew c s;
          s2 = (case cooldownTimer (heap s1 r) of
                  None \<Rightarrow> s1
                | Some h \<Rightarrow> clearTimeout h s1);
          s3 = (case responseTimer (heap s2 r) of
                  None \<Rightarrow> s2
                | Some h \<Rightarrow> assign r (\<lambda>st. st\<lparr>responseTimer := None\<rparr>) (clearTimeout h s2));
          s4 = assign r (\<lambda>st. st\<lparr>isInCooldown := True, lastResponseTime := Some now\<rparr>) s3;
          (h, s5) = setTimeout (CooldownEnd r c) duration s4;
          s6 = assign r (\<lambda>st. st\<lparr>cooldownTimer := Some h\<rparr>) s5;
          s7 = timers_set c r s6;
          s8 = persistCooldown now c duration s7
      in emit (COOLDOWN_STARTED c duration) s8)"

text \<open>\<open>startCooldown(chatId)\<close> takes the default \<open>config.app.cooldownPeriodMs\<close>.\<close>

definition handleGiladResponse :: "AppSettings \<Rightarrow> int \<Rightarrow> ChatId \<Rightarrow> TimerService \<Rightarrow> TimerService" where
  "handleGiladResponse cfg now c s =
     emit (GILAD_RESPONDED c) (startCooldown now c (cooldownPeriodMs cfg) (cancelTimer c s))"

text \<open>
  The value \<open>isInCooldown(chatId)\<close> returns. When the flag is not set the method also starts
  a ledger query whose continuation, \<open>isInCooldown_then\<close>, runs later on the object the
  call captured.
\<close>

definition TimerService_isInCooldown :: "ChatId \<Rightarrow> TimerService \<Rightarrow> bool" where
  "TimerService_isInCooldown c s =
     (case timers s c of None \<Rightarrow> False | Some r \<Rightarrow> isInCooldown (heap s r))"

definition isInCooldown_then :: "int \<Rightarrow> ChatId \<Rightarrow> ref option \<Rightarrow> TimerService \<Rightarrow> TimerService" where
  "isInCooldown_then now c captured s =
     (case captured of
        None \<Rightarrow> s
      | Some r \<Rightarrow> if storage_isInCooldown now c (storage s)
                  then assign r (\<lambda>st. st\<lparr>isInCooldown := True\<rparr>) s else s)"

text \<open>\<open>timerState.lastResponseTime\<close> as a condition: set and not \<open>0\<close>.\<close>

definition truthy :: "int option \<Rightarrow> bool" where
  "truthy v = (case v of None \<Rightarrow> False | Some n \<Rightarrow> n \<noteq> 0)"

definition getRemainingTime :: "AppSettings \<Rightarrow> int \<Rightarrow> ChatId \<Rightarrow> TimerService \<Rightarrow> int" where
  "getRemainingTime cfg now c s =
     (case timers s c of
        None \<Rightarrow> 0
      | Some r \<Rightarrow>
          (let st = heap s r in
           if isInCooldown st \<and> truthy (lastResponseTime st) then
             (let elapsed = now - (case lastResponseTime st of Some t \<Rightarrow> t | None \<Rightarrow> 0);
                  remaining = cooldownPeriodMs cfg - elapsed
              in max 0 remaining)
           else if responseTimer st \<noteq> None then responseDelayMs cfg
           else 0))"

definition isReady :: "TimerService \<Rightarrow> bool" where
  "isReady s = isInitialized s"

section \<open>Timeouts running\<close>

text \<open>
  The body of the \<open>try\<close> block of the response closure: it ends normally, or by the
  callback's failure with the state reached so far. The closure awaits the callback; what
  it does after the \<open>await\<close> touches the event list or the console only, so the closure
  is taken to run in one step, and calls the callback makes into the service are
  operations of their own.
\<close>

definition responseExpiry_try :: "ChatId \<Rightarrow> callback \<Rightarrow> TimerService \<Rightarrow> TimerService + TimerService" where
  "responseExpiry_try c cb s =
     (let s1 = (case timers s c of
                  None \<Rightarrow> s
                | Some r \<Rightarrow> assign r (\<lambda>st. st\<lparr>responseTimer := None\<rparr>) s)
      in case cb of
           Fails \<Rightarrow> Inl s1
         | Fulfils \<Rightarrow> Inr (emit (RESPONSE_TIMER_EXPIRED c) s1))"

definition responseExpiry :: "ChatId \<Rightarrow> callback \<Rightarrow> TimerService \<Rightarrow> TimerService" where
  "responseExpiry c cb s =
     (case responseExpiry_try c cb s of
        Inr s' \<Rightarrow> s'
      | Inl s' \<Rightarrow> console_error ''Error in response timer callback'' s')"

fun run :: "closure \<Rightarrow> TimerService \<Rightarrow> TimerService" where
  "run (ResponseExpiry c cb) s = responseExpiry c cb s"
| "run (CooldownEnd r c) s =
     emit (COOLDOWN_ENDED c) (assign r (\<lambda>st. st\<lparr>isInCooldown := False, cooldownTimer := None\<rparr>) s)"
| "run (RestoredCooldownEnd c) s =
     emit (COOLDOWN_ENDED c)
       (case timers s c of
          None \<Rightarrow> s
        | Some r \<Rightarrow> assign r (\<lambda>st. st\<lparr>isInCooldown := False, cooldownTimer := None\<rparr>) s)"
| "run (RestoredResponseExpiry c) s =
     emit (RESPONSE_TIMER_EXPIRED c)
       (case timers s c of
          None \<Rightarrow> s
        | Some r \<Rightarrow> assign r (\<lambda>st. st\<lparr>responseTimer := None\<rparr>) s)"

text \<open>The event loop runs the timeout \<open>h\<close>, if it is still armed.\<close>

definition fire :: "handle \<Rightarrow> TimerService \<Rightarrow> TimerService" where
  "fire h s =
     (case pending s h of
        None \<Rightarrow> s
      | Some t \<Rightarrow> run (closure t) (s\<lparr>pending := (pending s)(h := None)\<rparr>))"

section \<open>Recovery\<close>

text \<open>
  \<open>restoreTimersFromDatabase\<close>: for every active conversation, first the cooldown, then
  the active response rows. The routine awaits the ledger between its readings of the
  clock, so each reading has a value of its own: for one conversation, the \<open>Date.now()\<close>
  inside \<open>storage.isInCooldown\<close>, the one inside \<open>storage.getRemainingCooldownTime\<close>, the
  one that back-dates \<open>lastResponseTime\<close> in the state literal, and, per response row
  (by its id), the one that computes its remaining time and the one inside
  \<open>storage.endTimer\<close>. The routine takes the readings of every conversation as the
  argument \<open>clk\<close>.
\<close>

record restore_clock =
  atIsInCooldown :: int
  atRemaining :: int
  atBuild :: int
  atRow :: "nat \<Rightarrow> int"
  atEndTimer :: "nat \<Rightarrow> int"

text \<open>The body of the loop over the active response rows of a conversation.\<close>

definition restoreResponseTimer ::
  "restore_clock \<Rightarrow> ChatId \<Rightarrow> timer_row \<Rightarrow> TimerService \<Rightarrow> TimerService" where
  "restoreResponseTimer k c t s =
     (case tm_end_time t of
        None \<Rightarrow> s
      | Some e \<Rightarrow>
          if e = 0 then s
          else
            (let endTime = e * 1000;
                 remainingTime = endTime - atRow k (tm_id t)
             in if remainingTime > 0 then
                  (let (r, s1) = getOrNew c s;
                       (h, s2) = setTimeout (RestoredResponseExpiry c) remainingTime s1;
                       s3 = assign r (\<lambda>st. st\<lparr>responseTimer := Some h\<rparr>) s2
                   in timers_set c r s3)
                else s\<lparr>storage := storage_endTimer (atEndTimer k (tm_id t)) (tm_id t) (storage s)\<rparr>))"

fun restoreResponseTimers ::
  "restore_clock \<Rightarrow> ChatId \<Rightarrow> timer_row list \<Rightarrow> TimerService \<Rightarrow> TimerService" where
  "restoreResponseTimers k c [] s = s"
| "restoreResponseTimers k c (t # ts) s =
     restoreResponseTimers k c ts (restoreResponseTimer k c t s)"

definition restoreCooldown ::
  "AppSettings \<Rightarrow> restore_clock \<Rightarrow> ChatId \<Rightarrow> TimerService \<Rightarrow> TimerService" where
  "restoreCooldown cfg k c s =
     (if storage_isInCooldown (atIsInCooldown k) c (storage s) then
        (let remainingTime = storage_getRemainingCooldownTime (atRemaining k) c (storage s)
         in if remainingTime > 0 then
              (let (h, s1) = setTimeout (RestoredCooldownEnd c) remainingTime s;
                   (r, s2) = newObject
                      \<lparr>chatId = c, responseTimer = None, cooldownTimer = Some h,
                       lastResponseTime =
                         Some (atBuild k - (cooldownPeriodMs cfg - remainingTime)),
                       isInCooldown = True\<rparr> s1
               in timers_set c r s2)
            else s)
      else s)"

definition restoreConversation ::
  "AppSettings \<Rightarrow> restore_clock \<Rightarrow> ChatId \<Rightarrow> TimerService \<Rightarrow> TimerService" where
  "restoreConversation cfg k c s =
     (let s1 = restoreCooldown cfg k c s
      in restoreResponseTimers k c (storage_getActiveTimers c (Some Response) (storage s1)) s1)"

fun restoreLoop ::
  "AppSettings \<Rightarrow> (ChatId \<Rightarrow> restore_clock) \<Rightarrow> conversation_row list \<Rightarrow> TimerService
     \<Rightarrow> TimerService" where
  "restoreLoop cfg clk [] s = s"
| "restoreLoop cfg clk (conv # convs) s =
     restoreLoop cfg clk convs (restoreConversation cfg (clk (chat_id conv)) (chat_id conv) s)"

definition restoreTimersFromDatabase ::
  "AppSettings \<Rightarrow> (ChatId \<Rightarrow> restore_clock) \<Rightarrow> TimerService \<Rightarrow> TimerService" where
  "restoreTimersFromDatabase cfg clk s = restoreLoop cfg clk (getActiveConversations (storage s)) s"

definition initializeService ::
  "AppSettings \<Rightarrow> (ChatId \<Rightarrow> restore_clock) \<Rightarrow> TimerService \<Rightarrow> TimerService" where
  "initializeService cfg clk s = (restoreTimersFromDatabase cfg clk s)\<lparr>isInitialized := True\<rparr>"

text \<open>The process stops and a new one starts on the same database file.\<close>

definition restart ::
  "AppSettings \<Rightarrow> (ChatId \<Rightarrow> restore_clock) \<Rightarrow> TimerService \<Rightarrow> TimerService" where
  "restart cfg clk s = initializeService cfg clk (newTimerService (storage s))"

text \<open>A recovery fast enough to read the same value \<open>now\<close> from the clock every time.\<close>

definition steady :: "int \<Rightarrow> ChatId \<Rightarrow> restore_clock" where
  "steady now c =
     \<lparr>atIsInCooldown = now, atRemaining = now, atBuild = now,
      atRow = (\<lambda>_. now), atEndTimer = (\<lambda>_. now)\<rparr>"


section \<open>Auxiliary notions and the scenarios the results below are evaluated on\<close>

text \<open>The response handle the state of \<open>c\<close> references, if any.\<close>

definition trackedResponse :: "ChatId \<Rightarrow> TimerService \<Rightarrow> handle option" where
  "trackedResponse c s = (case timers s c of None \<Rightarrow> None | Some r \<Rightarrow> responseTimer (heap s r))"

text \<open>The events a call added to the ones emitted before it.\<close>

definition emittedSince :: "TimerService \<Rightarrow> TimerService \<Rightarrow> event list" where
  "emittedSince s s' = drop (length (emitted s)) (emitted s')"

text \<open>\<open>precedes a b xs\<close>: some \<open>b\<close> follows the first \<open>a\<close> in \<open>xs\<close>.\<close>

definition precedes :: "'a \<Rightarrow> 'a \<Rightarrow> 'a list \<Rightarrow> bool" where
  "precedes a b xs = (b \<in> set (dropWhile (\<lambda>x. x \<noteq> a) xs))"

text \<open>The defaults of the configuration: two minutes and five hours.\<close>

definition scenario_config :: AppSettings where
  "scenario_config = \<lparr>responseDelayMs = 120000, cooldownPeriodMs = 18000000\<rparr>"

text \<open>A ledger that knows the one conversation \<open>chatA\<close> and holds no timer or cooldown yet.\<close>

definition scenario_ledger :: StorageService where
  "scenario_ledger =
     \<lparr>conversations = [\<lparr>conv_id = 1, chat_id = ''chatA'', status = Active,
                         last_activity = 1700000000\<rparr>],
      cooldowns = [], timer_rows = [], next_cooldown_id = 1, next_timer_id = 1\<rparr>"

text \<open>A service started on that ledger at time \<open>1700000000000\<close>, recovery finished.\<close>

definition scenario_started :: TimerService where
  "scenario_started = initializeService scenario_config (steady 1700000000000) (newTimerService scenario_ledger)"

text \<open>
  Two messages open a thread in \<open>chatA\<close> ten seconds apart, each starting the response
  timer; the process restarts fifty seconds after the second.
\<close>

definition scenario_two_timers_restarted :: TimerService where
  "scenario_two_timers_restarted =
     restart scenario_config (steady 1700000060000)
       (startResponseTimer scenario_config 1700000010000 ''chatA'' Fulfils
          (startResponseTimer scenario_config 1700000000000 ''chatA'' Fulfils scenario_started))"

text \<open>
  A message starts the response timer of \<open>chatA\<close>, the owner answers ten seconds later, and
  the process restarts fifty seconds after that.
\<close>

definition scenario_owner_replied_restarted :: TimerService where
  "scenario_owner_replied_restarted =
     restart scenario_config (steady 1700000060000)
       (handleGiladResponse scenario_config 1700000010000 ''chatA''
          (startResponseTimer scenario_config 1700000000000 ''chatA'' Fulfils scenario_started))"

text \<open>
  A cooldown of thirty seconds starts for \<open>chatA\<close>, and the process restarts a minute
  later, when the cooldown has lapsed.
\<close>

definition scenario_lapsed_cooldown_restarted :: TimerService where
  "scenario_lapsed_cooldown_restarted =
     restart scenario_config (steady 1700000060000)
       (startCooldown 1700000000000 ''chatA'' 30000 scenario_started)"

text \<open>
  A cooldown of five hours starts for \<open>chatA\<close>, and a second later a message starts its
  response timer.
\<close>

definition scenario_cooldown_then_timer :: TimerService where
  "scenario_cooldown_then_timer =
     startResponseTimer scenario_config 1700000001000 ''chatA'' Fulfils
       (startCooldown 1700000000000 ''chatA'' 18000000 scenario_started)"

text \<open>The state object of \<open>c\<close>, if the timer map has one.\<close>

definition stateOf :: "ChatId \<Rightarrow> TimerService \<Rightarrow> TimerState option" where
  "stateOf c s = map_option (heap s) (timers s c)"

text \<open>
  The references of the timer map are allocated, and each object sits under its own chat
  id; hence two chat ids never share an object.
\<close>

definition refs_ok :: "TimerService \<Rightarrow> bool" where
  "refs_ok s = (\<forall>c r. timers s c = Some r \<longrightarrow> r < nextRef s \<and> chatId (heap s r) = c)"

text \<open>The closures of the armed timeouts.\<close>

definition armed :: "TimerService \<Rightarrow> closure set" where
  "armed s = closure ` ran (pending s)"

text \<open>Two ledgers with the same conversations and cooldown rows.\<close>

definition same_cooldowns :: "StorageService \<Rightarrow> StorageService \<Rightarrow> bool" where
  "same_cooldowns db db' = (conversations db' = conversations db \<and> cooldowns db' = cooldowns db)"

text \<open>
  The ledger a cooldown of \<open>chatA\<close> started at \<open>1700000000000\<close> leaves behind, as a function
  of the second at which the cooldown ends.
\<close>

definition scenario_ledger_with_cooldown :: "int \<Rightarrow> StorageService" where
  "scenario_ledger_with_cooldown e =
     scenario_ledger
       \<lparr>cooldowns := [\<lparr>cd_id = 1, cd_conversation_id = 1, cd_start_time = 1700000000,
                       cd_end_time = e, cd_is_active = True\<rparr>],
        next_cooldown_id := 2\<rparr>"

text \<open>The closures that announce the expiry of the response timer of \<open>c\<close>.\<close>

fun forResponse :: "ChatId \<Rightarrow> closure \<Rightarrow> bool" where
  "forResponse c (ResponseExpiry c' cb) = (c' = c)"
| "forResponse c (RestoredResponseExpiry c') = (c' = c)"
| "forResponse c (CooldownEnd r c') = False"
| "forResponse c (RestoredCooldownEnd c') = False"

text \<open>
  The states of a run: a service is constructed on some ledger, and then recovery, the
  public operations, the event loop and the continuation of the ledger query of
  \<open>isInCooldown\<close> act on it in any order (also before recovery, which the constructor
  starts without awaiting it).
\<close>

inductive reachable :: "TimerService \<Rightarrow> bool" where
  constructed: "reachable (newTimerService db)"
| recovered: "reachable s \<Longrightarrow> reachable (initializeService cfg clk s)"
| response_started: "reachable s \<Longrightarrow> reachable (startResponseTimer cfg now c cb s)"
| cooldown_started: "reachable s \<Longrightarrow> reachable (startCooldown now c d s)"
| owner_responded: "reachable s \<Longrightarrow> reachable (handleGiladResponse cfg now c s)"
| cancelled: "reachable s \<Longrightarrow> reachable (cancelTimer c s)"
| fired: "reachable s \<Longrightarrow> reachable (fire h s)"
| ledger_synced: "reachable s \<Longrightarrow> reachable (isInCooldown_then now c captured s)"

text \<open>Handles are handed out in increasing order: what is armed or referenced is allocated.\<close>

definition handles_ok :: "TimerService \<Rightarrow> bool" where
  "handles_ok s =
     ((\<forall>h t. pending s h = Some t \<longrightarrow> h < nextHandle s) \<and>
      (\<forall>r h. responseTimer (heap s r) = Some h \<longrightarrow> h < nextHandle s))"

text \<open>
  A recovery that starts at \<open>1700000060500\<close> and waits twenty milliseconds for the first
  ledger query and ten for every later step.
\<close>

definition scenario_slow_clock :: "ChatId \<Rightarrow> restore_clock" where
  "scenario_slow_clock c =
     \<lparr>atIsInCooldown = 1700000060500, atRemaining = 1700000060520, atBuild = 1700000060530,
      atRow = (\<lambda>_. 1700000060540), atEndTimer = (\<lambda>_. 1700000060550)\<rparr>"

text \<open>
  As \<open>scenario_cooldown_then_timer\<close>, with a callback that fails; then \<open>isInCooldown\<close> is
  asked, and its ledger query settles a second later.
\<close>

definition scenario_cooldown_then_failing_timer :: TimerService where
  "scenario_cooldown_then_failing_timer =
     startResponseTimer scenario_config 1700000001000 ''chatA'' Fails
       (startCooldown 1700000000000 ''chatA'' 18000000 scenario_started)"

definition scenario_failing_timer_in_cooldown :: TimerService where
  "scenario_failing_timer_in_cooldown =
     isInCooldown_then 1700000002000 ''chatA''
       (timers scenario_cooldown_then_failing_timer ''chatA'')
       scenario_cooldown_then_failing_timer"

section \<open>Basic facts\<close>

lemmas storage_defs =
  getConversation_def getActiveConversations_def deactivateActiveCooldowns_def
  storage_startCooldown_def liveCooldowns_def storage_isInCooldown_def
  storage_getRemainingCooldownTime_def storage_startTimer_def storage_endTimer_def
  storage_getActiveTimers_def

lemmas prim_defs =
  newTimerService_def setTimeout_def clearTimeout_def emit_def console_error_def
  newObject_def assign_def timers_set_def getOrNew_def

lemmas core_defs =
  cancelTimer_def startResponseTimer_def startCooldown_def handleGiladResponse_def

lemmas persist_defs = persistTimer_def persistCooldown_def

lemmas fire_defs = fire_def responseExpiry_def responseExpiry_try_def

lemmas recovery_defs =
  restoreResponseTimer_def restoreCooldown_def restoreConversation_def restoreTimersFromDatabase_def
  initializeService_def restart_def steady_def

lemmas scenario_defs =
  scenario_config_def scenario_ledger_def scenario_started_def
  scenario_two_timers_restarted_def scenario_owner_replied_restarted_def
  scenario_lapsed_cooldown_restarted_def scenario_cooldown_then_timer_def
  scenario_cooldown_then_failing_timer_def scenario_failing_timer_in_cooldown_def

subsection \<open>What each primitive changes\<close>

lemma clearTimeout_fields [simp]:
  "timers (clearTimeout h s) = timers s"
  "heap (clearTimeout h s) = heap s"
  "nextRef (clearTimeout h s) = nextRef s"
  "pending (clearTimeout h s) = (pending s)(h := None)"
  "nextHandle (clearTimeout h s) = nextHandle s"
  "emitted (clearTimeout h s) = emitted s"
  "console (clearTimeout h s) = console s"
  "isInitialized (clearTimeout h s) = isInitialized s"
  "storage (clearTimeout h s) = storage s"
  by (simp_all add: clearTimeout_def)

lemma emit_fields [simp]:
  "timers (emit e s) = timers s"
  "heap (emit e s) = heap s"
  "nextRef (emit e s) = nextRef s"
  "pending (emit e s) = pending s"
  "nextHandle (emit e s) = nextHandle s"
  "emitted (emit e s) = emitted s @ [e]"
  "console (emit e s) = console s"
  "isInitialized (emit e s) = isInitialized s"
  "storage (emit e s) = storage s"
  by (simp_all add: emit_def)

lemma console_error_fields [simp]:
  "timers (console_error m s) = timers s"
  "heap (console_error m s) = heap s"
  "nextRef (console_error m s) = nextRef s"
  "pending (console_error m s) = pending s"
  "nextHandle (console_error m s) = nextHandle s"
  "emitted (console_error m s) = emitted s"
  "console (console_error m s) = console s @ [m]"
  "isInitialized (console_error m s) = isInitialized s"
  "storage (console_error m s) = storage s"
  by (simp_all add: console_error_def)

lemma assign_fields [simp]:
  "timers (assign r f s) = timers s"
  "heap (assign r f s) = (heap s)(r := f (heap s r))"
  "nextRef (assign r f s) = nextRef s"
  "pending (assign r f s) = pending s"
  "nextHandle (assign r f s) = nextHandle s"
  "emitted (assign r f s) = emitted s"
  "console (assign r f s) = console s"
  "isInitialized (assign r f s) = isInitialized s"
  "storage (assign r f s) = storage s"
  by (simp_all add: assign_def)

lemma timers_set_fields [simp]:
  "timers (timers_set c r s) = (timers s)(c \<mapsto> r)"
  "heap (timers_set c r s) = heap s"
  "nextRef (timers_set c r s) = nextRef s"
  "pending (timers_set c r s) = pending s"
  "nextHandle (timers_set c r s) = nextHandle s"
  "emitted (timers_set c r s) = emitted s"
  "console (timers_set c r s) = console s"
  "isInitialized (timers_set c r s) = isInitialized s"
  "storage (timers_set c r s) = storage s"
  by (simp_all add: timers_set_def)

lemma setTimeout_fields [simp]:
  "fst (setTimeout f ms s) = nextHandle s"
  "timers (snd (setTimeout f ms s)) = timers s"
  "heap (snd (setTimeout f ms s)) = heap s"
  "nextRef (snd (setTimeout f ms s)) = nextRef s"
  "pending (snd (setTimeout f ms s)) = (pending s)(nextHandle s \<mapsto> \<lparr>closure = f, delay = ms\<rparr>)"
  "nextHandle (snd (setTimeout f ms s)) = Suc (nextHandle s)"
  "emitted (snd (setTimeout f ms s)) = emitted s"
  "console (snd (setTimeout f ms s)) = console s"
  "isInitialized (snd (setTimeout f ms s)) = isInitialized s"
  "storage (snd (setTimeout f ms s)) = storage s"
  by (simp_all add: setTimeout_def)

lemma newObject_fields [simp]:
  "fst (newObject st s) = nextRef s"
  "timers (snd (newObject st s)) = timers s"
  "heap (snd (newObject st s)) = (heap s)(nextRef s := st)"
  "nextRef (snd (newObject st s)) = Suc (nextRef s)"
  "pending (snd (newObject st s)) = pending s"
  "nextHandle (snd (newObject st s)) = nextHandle s"
  "emitted (snd (newObject st s)) = emitted s"
  "console (snd (newObject st s)) = console s"
  "isInitialized (snd (newObject st s)) = isInitialized s"
  "storage (snd (newObject st s)) = storage s"
  by (simp_all add: newObject_def)

lemma getOrNew_fields [simp]:
  "timers (snd (getOrNew c s)) = timers s"
  "pending (snd (getOrNew c s)) = pending s"
  "nextHandle (snd (getOrNew c s)) = nextHandle s"
  "emitted (snd (getOrNew c s)) = emitted s"
  "console (snd (getOrNew c s)) = console s"
  "isInitialized (snd (getOrNew c s)) = isInitialized s"
  "storage (snd (getOrNew c s)) = storage s"
  by (simp_all add: getOrNew_def split: option.splits)

lemma getOrNew_Some [simp]:
  "timers s c = Some r \<Longrightarrow> getOrNew c s = (r, s)"
  by (simp add: getOrNew_def)

lemma getOrNew_None [simp]:
  "timers s c = None \<Longrightarrow>
   getOrNew c s = newObject \<lparr>chatId = c, responseTimer = None, cooldownTimer = None,
                             lastResponseTime = None, isInCooldown = False\<rparr> s"
  by (simp add: getOrNew_def)

lemma persistTimer_fields [simp]:
  "timers (persistTimer now c ms s) = timers s"
  "heap (persistTimer now c ms s) = heap s"
  "nextRef (persistTimer now c ms s) = nextRef s"
  "pending (persistTimer now c ms s) = pending s"
  "nextHandle (persistTimer now c ms s) = nextHandle s"
  "emitted (persistTimer now c ms s) = emitted s"
  "isInitialized (persistTimer now c ms s) = isInitialized s"
  by (simp_all add: persistTimer_def split: sum.splits prod.splits)

lemma persistCooldown_fields [simp]:
  "timers (persistCooldown now c ms s) = timers s"
  "heap (persistCooldown now c ms s) = heap s"
  "nextRef (persistCooldown now c ms s) = nextRef s"
  "pending (persistCooldown now c ms s) = pending s"
  "nextHandle (persistCooldown now c ms s) = nextHandle s"
  "emitted (persistCooldown now c ms s) = emitted s"
  "isInitialized (persistCooldown now c ms s) = isInitialized s"
  by (simp_all add: persistCooldown_def split: sum.splits prod.splits)

lemma cancelTimer_fields [simp]:
  "timers (cancelTimer c s) = timers s"
  "nextRef (cancelTimer c s) = nextRef s"
  "nextHandle (cancelTimer c s) = nextHandle s"
  "console (cancelTimer c s) = console s"
  "isInitialized (cancelTimer c s) = isInitialized s"
  "storage (cancelTimer c s) = storage s"
  by (simp_all add: cancelTimer_def split: option.splits)

subsection \<open>No primitive reads the flag \<open>isInitialized\<close>\<close>

lemma prims_ignore_isInitialized:
  "clearTimeout h (s\<lparr>isInitialized := b\<rparr>) = (clearTimeout h s)\<lparr>isInitialized := b\<rparr>"
  "emit e (s\<lparr>isInitialized := b\<rparr>) = (emit e s)\<lparr>isInitialized := b\<rparr>"
  "console_error m (s\<lparr>isInitialized := b\<rparr>) = (console_error m s)\<lparr>isInitialized := b\<rparr>"
  "assign r f (s\<lparr>isInitialized := b\<rparr>) = (assign r f s)\<lparr>isInitialized := b\<rparr>"
  "timers_set c r (s\<lparr>isInitialized := b\<rparr>) = (timers_set c r s)\<lparr>isInitialized := b\<rparr>"
  "setTimeout g ms (s\<lparr>isInitialized := b\<rparr>)
     = (nextHandle s, (snd (setTimeout g ms s))\<lparr>isInitialized := b\<rparr>)"
  "newObject st (s\<lparr>isInitialized := b\<rparr>)
     = (nextRef s, (snd (newObject st s))\<lparr>isInitialized := b\<rparr>)"
  "getOrNew c (s\<lparr>isInitialized := b\<rparr>)
     = (fst (getOrNew c s), (snd (getOrNew c s))\<lparr>isInitialized := b\<rparr>)"
  "persistTimer now c ms (s\<lparr>isInitialized := b\<rparr>) = (persistTimer now c ms s)\<lparr>isInitialized := b\<rparr>"
  "persistCooldown now c ms (s\<lparr>isInitialized := b\<rparr>)
     = (persistCooldown now c ms s)\<lparr>isInitialized := b\<rparr>"
  by (simp_all add: clearTimeout_def emit_def console_error_def assign_def timers_set_def
        setTimeout_def newObject_def getOrNew_def persistTimer_def persistCooldown_def
        split: option.splits sum.splits prod.splits)

lemma cancelTimer_ignores_isInitialized:
  "cancelTimer c (s\<lparr>isInitialized := b\<rparr>) = (cancelTimer c s)\<lparr>isInitialized := b\<rparr>"
  by (simp add: cancelTimer_def prims_ignore_isInitialized split: option.splits)

lemma startResponseTimer_ignores_isInitialized:
  "startResponseTimer cfg now c cb (s\<lparr>isInitialized := b\<rparr>)
     = (startResponseTimer cfg now c cb s)\<lparr>isInitialized := b\<rparr>"
  by (simp add: startResponseTimer_def Let_def split_def
        prims_ignore_isInitialized cancelTimer_ignores_isInitialized)

lemma startCooldown_ignores_isInitialized:
  "startCooldown now c d (s\<lparr>isInitialized := b\<rparr>)
     = (startCooldown now c d s)\<lparr>isInitialized := b\<rparr>"
  by (simp add: startCooldown_def Let_def split_def prims_ignore_isInitialized
        split: option.splits)

subsection \<open>Recovery, one conversation at a time\<close>

lemma armed_setTimeout:
  "armed (snd (setTimeout f ms s)) \<subseteq> insert f (armed s)"
  by (auto simp: armed_def ran_def split: if_splits)

lemma cooldown_queries_cong:
  assumes "same_cooldowns db db'"
  shows "storage_isInCooldown now c db' = storage_isInCooldown now c db"
    and "storage_getRemainingCooldownTime now c db' = storage_getRemainingCooldownTime now c db"
  using assms
  by (simp_all add: same_cooldowns_def storage_isInCooldown_def
        storage_getRemainingCooldownTime_def getConversation_def liveCooldowns_def
        split: option.splits)

lemma restoreResponseTimer_storage:
  "same_cooldowns db (storage s) \<Longrightarrow> same_cooldowns db (storage (restoreResponseTimer k c t s))"
  by (simp add: restoreResponseTimer_def same_cooldowns_def storage_endTimer_def Let_def split_def
        split: option.splits)

lemma restoreResponseTimer_refs_ok:
  "refs_ok s \<Longrightarrow> refs_ok (restoreResponseTimer k c t s)"
  by (cases "timers s c")
     (auto simp: restoreResponseTimer_def refs_ok_def Let_def split_def less_Suc_eq
        split: option.splits)

lemma heap_fresh_other:
  "refs_ok s \<Longrightarrow>
   map_option ((heap s)(nextRef s := st)) (timers s c) = map_option (heap s) (timers s c)"
  by (cases "timers s c") (auto simp: refs_ok_def)

lemma heap_upd_other:
  "refs_ok s \<Longrightarrow> timers s c' = Some a \<Longrightarrow> c' \<noteq> c \<Longrightarrow>
   map_option ((heap s)(a := st)) (timers s c) = map_option (heap s) (timers s c)"
  by (cases "timers s c") (auto simp: refs_ok_def)

lemma restoreResponseTimer_other:
  "c' \<noteq> c \<Longrightarrow> refs_ok s \<Longrightarrow> stateOf c (restoreResponseTimer k c' t s) = stateOf c s"
  by (cases "timers s c'")
     (auto simp: restoreResponseTimer_def stateOf_def heap_fresh_other heap_upd_other
        Let_def split_def split: option.splits)

lemma restoreResponseTimer_armed:
  "armed (restoreResponseTimer k c t s) \<subseteq> insert (RestoredResponseExpiry c) (armed s)"
proof -
  have "armed (snd (setTimeout (RestoredResponseExpiry c) ms (snd (getOrNew c s))))
          \<subseteq> insert (RestoredResponseExpiry c) (armed s)" for ms
    using armed_setTimeout [of "RestoredResponseExpiry c" ms "snd (getOrNew c s)"]
    by (simp add: armed_def)
  then show ?thesis
    by (auto simp: restoreResponseTimer_def Let_def split_def armed_def split: option.splits)
qed

text \<open>
  The loop body leaves the cooldown flag and \<open>lastResponseTime\<close> of every conversation
  as they are; a state it has to create is not in cooldown.
\<close>

lemma restoreResponseTimer_keeps_cooldown:
  assumes "refs_ok s" and "stateOf c s = Some st"
  shows "\<exists>st'. stateOf c (restoreResponseTimer k c' t s) = Some st' \<and>
               isInCooldown st' = isInCooldown st \<and>
               lastResponseTime st' = lastResponseTime st"
proof (cases "c' = c")
  case True
  with assms show ?thesis
    by (auto simp: restoreResponseTimer_def stateOf_def Let_def split_def split: option.splits)
next
  case False
  with assms restoreResponseTimer_other [of c' c s k t] show ?thesis by simp
qed

lemma restoreResponseTimer_keeps_idle:
  assumes "refs_ok s" and "\<not> TimerService_isInCooldown c s"
  shows "\<not> TimerService_isInCooldown c (restoreResponseTimer k c' t s)"
proof (cases "c' = c")
  case True
  with assms show ?thesis
    by (cases "timers s c")
       (auto simp: restoreResponseTimer_def TimerService_isInCooldown_def Let_def split_def
          split: option.splits)
next
  case False
  from restoreResponseTimer_other [OF False assms(1), of k t] assms(2) show ?thesis
    by (auto simp: stateOf_def TimerService_isInCooldown_def split: option.splits)
qed

lemma restoreResponseTimers_storage:
  "same_cooldowns db (storage s) \<Longrightarrow> same_cooldowns db (storage (restoreResponseTimers k c ts s))"
  by (induction ts arbitrary: s) (simp_all add: restoreResponseTimer_storage)

lemma restoreResponseTimers_refs_ok:
  "refs_ok s \<Longrightarrow> refs_ok (restoreResponseTimers k c ts s)"
  by (induction ts arbitrary: s) (simp_all add: restoreResponseTimer_refs_ok)

lemma restoreResponseTimers_armed:
  "armed (restoreResponseTimers k c ts s) \<subseteq> insert (RestoredResponseExpiry c) (armed s)"
proof (induction ts arbitrary: s)
  case Nil
  show ?case by auto
next
  case (Cons t ts)
  from Cons [of "restoreResponseTimer k c t s"] restoreResponseTimer_armed [of k c t s]
  show ?case by auto
qed

lemma restoreResponseTimers_keeps_cooldown:
  "refs_ok s \<Longrightarrow> stateOf c s = Some st \<Longrightarrow>
   \<exists>st'. stateOf c (restoreResponseTimers k c' ts s) = Some st' \<and>
         isInCooldown st' = isInCooldown st \<and> lastResponseTime st' = lastResponseTime st"
proof (induction ts arbitrary: s st)
  case Nil
  then show ?case by simp
next
  case (Cons t ts)
  from restoreResponseTimer_keeps_cooldown [OF Cons.prems, of k c' t]
  obtain st1 where 1: "stateOf c (restoreResponseTimer k c' t s) = Some st1"
    and 2: "isInCooldown st1 = isInCooldown st" "lastResponseTime st1 = lastResponseTime st"
    by blast
  from Cons.IH [OF restoreResponseTimer_refs_ok [OF Cons.prems(1)] 1] 2
  show ?case by simp
qed

lemma restoreResponseTimers_keeps_idle:
  "refs_ok s \<Longrightarrow> \<not> TimerService_isInCooldown c s \<Longrightarrow>
   \<not> TimerService_isInCooldown c (restoreResponseTimers k c' ts s)"
  by (induction ts arbitrary: s)
     (simp_all add: restoreResponseTimer_refs_ok restoreResponseTimer_keeps_idle)

text \<open>Restoring the cooldown of a conversation.\<close>

lemma restoreCooldown_storage [simp]:
  "storage (restoreCooldown cfg k c s) = storage s"
  by (simp add: restoreCooldown_def Let_def split_def)

lemma restoreCooldown_refs_ok:
  "refs_ok s \<Longrightarrow> refs_ok (restoreCooldown cfg k c s)"
  by (auto simp: restoreCooldown_def refs_ok_def Let_def split_def less_Suc_eq)

lemma restoreCooldown_other:
  "c' \<noteq> c \<Longrightarrow> refs_ok s \<Longrightarrow> stateOf c (restoreCooldown cfg k c' s) = stateOf c s"
  by (auto simp: restoreCooldown_def stateOf_def heap_fresh_other Let_def split_def)

lemma restoreCooldown_armed:
  "armed (restoreCooldown cfg k c s) \<subseteq> insert (RestoredCooldownEnd c) (armed s)"
proof -
  have "armed (snd (newObject st (snd (setTimeout (RestoredCooldownEnd c) ms s))))
          \<subseteq> insert (RestoredCooldownEnd c) (armed s)" for ms st
    using armed_setTimeout [of "RestoredCooldownEnd c" ms s] by (simp add: armed_def)
  then show ?thesis
    by (auto simp: restoreCooldown_def Let_def split_def armed_def)
qed

lemma restoreCooldown_lapsed:
  "\<not> (storage_isInCooldown (atIsInCooldown k) c (storage s) \<and>
      0 < storage_getRemainingCooldownTime (atRemaining k) c (storage s)) \<Longrightarrow>
   restoreCooldown cfg k c s = s"
  by (auto simp: restoreCooldown_def Let_def)

lemma restoreCooldown_live:
  assumes "storage_isInCooldown (atIsInCooldown k) c (storage s)"
    and "0 < storage_getRemainingCooldownTime (atRemaining k) c (storage s)"
  shows "stateOf c (restoreCooldown cfg k c s)
           = Some \<lparr>chatId = c, responseTimer = None, cooldownTimer = Some (nextHandle s),
                   lastResponseTime =
                     Some (atBuild k -
                             (cooldownPeriodMs cfg
                                - storage_getRemainingCooldownTime (atRemaining k) c (storage s))),
                   isInCooldown = True\<rparr>"
    and "pending (restoreCooldown cfg k c s) (nextHandle s)
           = Some \<lparr>closure = RestoredCooldownEnd c,
                   delay = storage_getRemainingCooldownTime (atRemaining k) c (storage s)\<rparr>"
  using assms by (simp_all add: restoreCooldown_def stateOf_def Let_def split_def)

text \<open>One conversation of the recovery loop, and the loop.\<close>

lemma restoreConversation_storage:
  "same_cooldowns db (storage s) \<Longrightarrow>
   same_cooldowns db (storage (restoreConversation cfg k c s))"
  by (simp add: restoreConversation_def Let_def restoreResponseTimers_storage)

lemma restoreConversation_refs_ok:
  "refs_ok s \<Longrightarrow> refs_ok (restoreConversation cfg k c s)"
  by (simp add: restoreConversation_def Let_def restoreResponseTimers_refs_ok
        restoreCooldown_refs_ok)

lemma restoreConversation_armed:
  "armed (restoreConversation cfg k c s)
     \<subseteq> insert (RestoredResponseExpiry c) (insert (RestoredCooldownEnd c) (armed s))"
  using restoreResponseTimers_armed
          [of k c "storage_getActiveTimers c (Some Response) (storage s)"
              "restoreCooldown cfg k c s"]
        restoreCooldown_armed [of cfg k c s]
  by (auto simp: restoreConversation_def Let_def)

lemma restoreConversation_keeps_cooldown:
  assumes "c' \<noteq> c" and "refs_ok s" and "stateOf c s = Some st"
  shows "\<exists>st'. stateOf c (restoreConversation cfg k c' s) = Some st' \<and>
               isInCooldown st' = isInCooldown st \<and>
               lastResponseTime st' = lastResponseTime st"
proof -
  from assms have "stateOf c (restoreCooldown cfg k c' s) = Some st"
    by (simp add: restoreCooldown_other)
  from restoreResponseTimers_keeps_cooldown [OF restoreCooldown_refs_ok [OF assms(2)] this]
  show ?thesis by (simp add: restoreConversation_def Let_def)
qed

lemma restoreConversation_live:
  assumes "refs_ok s"
    and "storage_isInCooldown (atIsInCooldown k) c (storage s)"
    and "0 < storage_getRemainingCooldownTime (atRemaining k) c (storage s)"
  shows "\<exists>st'. stateOf c (restoreConversation cfg k c s) = Some st' \<and>
               isInCooldown st' \<and>
               lastResponseTime st'
                 = Some (atBuild k -
                           (cooldownPeriodMs cfg
                              - storage_getRemainingCooldownTime (atRemaining k) c (storage s)))"
proof -
  have r: "refs_ok (restoreCooldown cfg k c s)"
    using assms(1) by (rule restoreCooldown_refs_ok)
  note st = restoreCooldown_live(1) [OF assms(2,3), of cfg]
  from restoreResponseTimers_keeps_cooldown [OF r st]
  show ?thesis by (simp add: restoreConversation_def Let_def)
qed

lemma restoreConversation_keeps_idle:
  assumes "refs_ok s" and "\<not> TimerService_isInCooldown c s"
    and "c' = c \<longrightarrow>
           \<not> (storage_isInCooldown (atIsInCooldown k) c (storage s) \<and>
              0 < storage_getRemainingCooldownTime (atRemaining k) c (storage s))"
  shows "\<not> TimerService_isInCooldown c (restoreConversation cfg k c' s)"
proof -
  have "\<not> TimerService_isInCooldown c (restoreCooldown cfg k c' s)"
  proof (cases "c' = c")
    case True
    with assms show ?thesis by (simp add: restoreCooldown_lapsed)
  next
    case False
    from restoreCooldown_other [OF False assms(1), of cfg k] assms(2) show ?thesis
      by (auto simp: stateOf_def TimerService_isInCooldown_def split: option.splits)
  qed
  from restoreResponseTimers_keeps_idle [OF restoreCooldown_refs_ok [OF assms(1)] this]
  show ?thesis by (simp add: restoreConversation_def Let_def)
qed

lemma restoreConversation_no_cooldown_task:
  assumes "RestoredCooldownEnd c \<notin> armed s"
    and "c' = c \<longrightarrow>
           \<not> (storage_isInCooldown (atIsInCooldown k) c (storage s) \<and>
              0 < storage_getRemainingCooldownTime (atRemaining k) c (storage s))"
  shows "RestoredCooldownEnd c \<notin> armed (restoreConversation cfg k c' s)"
proof (cases "c' = c")
  case True
  with assms have "restoreCooldown cfg k c s = s" by (simp add: restoreCooldown_lapsed)
  with True assms(1)
    restoreResponseTimers_armed [of k c "storage_getActiveTimers c (Some Response) (storage s)" s]
  show ?thesis by (auto simp: restoreConversation_def Let_def)
next
  case False
  with assms(1) restoreConversation_armed [of cfg k c' s] show ?thesis by auto
qed

lemma restoreLoop_storage:
  "same_cooldowns db (storage s) \<Longrightarrow> same_cooldowns db (storage (restoreLoop cfg clk convs s))"
  by (induction convs arbitrary: s) (simp_all add: restoreConversation_storage)

text \<open>
  A lapsed cooldown: no iteration of the loop puts \<open>c\<close> in cooldown or arms a cooldown
  task for it, and the cooldown rows stay as they were.
\<close>

lemma restoreLoop_lapsed:
  assumes "\<not> (storage_isInCooldown (atIsInCooldown (clk c)) c db \<and>
              0 < storage_getRemainingCooldownTime (atRemaining (clk c)) c db)"
  shows "same_cooldowns db (storage s) \<Longrightarrow> refs_ok s \<Longrightarrow>
         \<not> TimerService_isInCooldown c s \<Longrightarrow> RestoredCooldownEnd c \<notin> armed s \<Longrightarrow>
         \<not> TimerService_isInCooldown c (restoreLoop cfg clk convs s) \<and>
         RestoredCooldownEnd c \<notin> armed (restoreLoop cfg clk convs s)"
proof (induction convs arbitrary: s)
  case Nil
  then show ?case by simp
next
  case (Cons conv convs)
  let ?s1 = "restoreConversation cfg (clk (chat_id conv)) (chat_id conv) s"
  from Cons.prems(1) assms
  have lapsed: "\<not> (storage_isInCooldown (atIsInCooldown (clk c)) c (storage s) \<and>
                   0 < storage_getRemainingCooldownTime (atRemaining (clk c)) c (storage s))"
    by (simp add: cooldown_queries_cong)
  have "same_cooldowns db (storage ?s1)"
    using Cons.prems(1) by (rule restoreConversation_storage)
  moreover have "refs_ok ?s1"
    using Cons.prems(2) by (rule restoreConversation_refs_ok)
  moreover have "\<not> TimerService_isInCooldown c ?s1"
    using Cons.prems(2,3) lapsed by (intro restoreConversation_keeps_idle) auto
  moreover have "RestoredCooldownEnd c \<notin> armed ?s1"
    using Cons.prems(4) lapsed by (intro restoreConversation_no_cooldown_task) auto
  ultimately show ?case using Cons.IH [of ?s1] by simp
qed

text \<open>
  A live cooldown: the iteration of \<open>c\<close> rebuilds its state in cooldown, and the later
  iterations keep the flag and \<open>lastResponseTime\<close>.
\<close>

lemma restoreLoop_live:
  assumes "storage_isInCooldown (atIsInCooldown (clk c)) c db"
    and "0 < storage_getRemainingCooldownTime (atRemaining (clk c)) c db"
  shows "same_cooldowns db (storage s) \<Longrightarrow> refs_ok s \<Longrightarrow>
         c \<in> chat_id ` set convs \<or>
           (\<exists>st. stateOf c s = Some st \<and> isInCooldown st \<and>
                 lastResponseTime st
                   = Some (atBuild (clk c) -
                          (cooldownPeriodMs cfg
                             - storage_getRemainingCooldownTime (atRemaining (clk c)) c db))) \<Longrightarrow>
         \<exists>st. stateOf c (restoreLoop cfg clk convs s) = Some st \<and> isInCooldown st \<and>
              lastResponseTime st
                = Some (atBuild (clk c) -
                          (cooldownPeriodMs cfg
                             - storage_getRemainingCooldownTime (atRemaining (clk c)) c db))"
proof (induction convs arbitrary: s)
  case Nil
  then show ?case by simp
next
  case (Cons conv convs)
  let ?s1 = "restoreConversation cfg (clk (chat_id conv)) (chat_id conv) s"
  let ?l = "atBuild (clk c) -
              (cooldownPeriodMs cfg - storage_getRemainingCooldownTime (atRemaining (clk c)) c db)"
  let ?P = "\<lambda>s. \<exists>st. stateOf c s = Some st \<and> isInCooldown st \<and> lastResponseTime st = Some ?l"
  have q: "storage_isInCooldown (atIsInCooldown (clk c)) c (storage s)"
          "storage_getRemainingCooldownTime (atRemaining (clk c)) c (storage s)
             = storage_getRemainingCooldownTime (atRemaining (clk c)) c db"
    using Cons.prems(1) assms by (simp_all add: cooldown_queries_cong)
  have 1: "same_cooldowns db (storage ?s1)"
    using Cons.prems(1) by (rule restoreConversation_storage)
  have 2: "refs_ok ?s1"
    using Cons.prems(2) by (rule restoreConversation_refs_ok)
  have 3: "c \<in> chat_id ` set convs \<or> ?P ?s1"
  proof (cases "chat_id conv = c")
    case True
    from restoreConversation_live [OF Cons.prems(2) q(1), of cfg] q(2) assms(2) True
    show ?thesis by simp
  next
    case False
    show ?thesis
    proof (cases "c \<in> chat_id ` set convs")
      case True
      then show ?thesis by simp
    next
      case notin: False
      with Cons.prems(3) False obtain st where
        st: "stateOf c s = Some st" "isInCooldown st" "lastResponseTime st = Some ?l"
        by auto
      from restoreConversation_keeps_cooldown [OF False Cons.prems(2) st(1), of cfg "clk (chat_id conv)"] st(2,3)
      show ?thesis by auto
    qed
  qed
  from Cons.IH [OF 1 2 3] show ?case by simp
qed

text \<open>What the ledger answers when the conversation has one active cooldown row.\<close>

lemma liveCooldowns_single:
  assumes "filter (\<lambda>r. cd_conversation_id r = conv_id conv \<and> cd_is_active r) (cooldowns db) = [row]"
  shows "liveCooldowns n conv db = (if n < cd_end_time row then [row] else [])"
proof -
  have "liveCooldowns n conv db
          = filter (\<lambda>r. n < cd_end_time r)
              (filter (\<lambda>r. cd_conversation_id r = conv_id conv \<and> cd_is_active r) (cooldowns db))"
    by (simp add: liveCooldowns_def conj_commute conj_left_commute)
  with assms show ?thesis by simp
qed

lemma ledger_live:
  assumes "getConversation c db = Some conv"
    and "filter (\<lambda>r. cd_conversation_id r = conv_id conv \<and> cd_is_active r) (cooldowns db) = [row]"
    and "now < cd_end_time row * 1000"
  shows "storage_isInCooldown now c db"
    and "storage_getRemainingCooldownTime now c db = (cd_end_time row - now div 1000) * 1000"
    and "0 < (cd_end_time row - now div 1000) * 1000"
proof -
  from assms(3) have lt: "now div 1000 < cd_end_time row" by linarith
  then show "0 < (cd_end_time row - now div 1000) * 1000" by simp
  from lt show "storage_isInCooldown now c db"
    by (simp add: storage_isInCooldown_def assms(1) liveCooldowns_single [OF assms(2)])
  from lt show "storage_getRemainingCooldownTime now c db = (cd_end_time row - now div 1000) * 1000"
    by (simp add: storage_getRemainingCooldownTime_def assms(1) liveCooldowns_single [OF assms(2)])
qed

lemma ledger_lapsed:
  assumes "getConversation c db = Some conv"
    and "filter (\<lambda>r. cd_conversation_id r = conv_id conv \<and> cd_is_active r) (cooldowns db) = [row]"
    and "cd_end_time row * 1000 \<le> now"
  shows "\<not> storage_isInCooldown now c db"
proof -
  from assms(3) have "\<not> now div 1000 < cd_end_time row" by linarith
  then show ?thesis
    by (simp add: storage_isInCooldown_def assms(1) liveCooldowns_single [OF assms(2)])
qed

lemma ledger_lapsed_remaining:
  assumes "getConversation c db = Some conv"
    and "filter (\<lambda>r. cd_conversation_id r = conv_id conv \<and> cd_is_active r) (cooldowns db) = [row]"
    and "cd_end_time row * 1000 \<le> now"
  shows "storage_getRemainingCooldownTime now c db = 0"
proof -
  from assms(3) have "\<not> now div 1000 < cd_end_time row" by linarith
  then show ?thesis
    by (simp add: storage_getRemainingCooldownTime_def assms(1) liveCooldowns_single [OF assms(2)])
qed

lemma active_conversation_is_restored:
  assumes "getConversation c db = Some conv" and "status conv = Active"
  shows "c \<in> chat_id ` set (getActiveConversations db)"
proof -
  from assms(1) have "conv \<in> set (conversations db)" "chat_id conv = c"
    by (auto simp: getConversation_def find_Some_iff)
  with assms(2) show ?thesis
    by (force simp: getActiveConversations_def)
qed

lemma newTimerService_facts:
  "same_cooldowns db (storage (newTimerService db))"
  "refs_ok (newTimerService db)"
  "\<not> TimerService_isInCooldown c (newTimerService db)"
  "armed (newTimerService db) = {}"
  by (simp_all add: newTimerService_def same_cooldowns_def refs_ok_def
        TimerService_isInCooldown_def armed_def)

lemma initializeService_fields:
  "stateOf c (initializeService cfg clk s) = stateOf c (restoreTimersFromDatabase cfg clk s)"
  "TimerService_isInCooldown c (initializeService cfg clk s)
     = TimerService_isInCooldown c (restoreTimersFromDatabase cfg clk s)"
  "armed (initializeService cfg clk s) = armed (restoreTimersFromDatabase cfg clk s)"
  "storage (initializeService cfg clk s) = storage (restoreTimersFromDatabase cfg clk s)"
  by (simp_all add: initializeService_def stateOf_def TimerService_isInCooldown_def armed_def
        cong: option.case_cong)

lemma getRemainingTime_in_cooldown:
  assumes "stateOf c s = Some st" and "isInCooldown st"
    and "lastResponseTime st = Some l" and "l \<noteq> 0"
  shows "getRemainingTime cfg now c s = max 0 (cooldownPeriodMs cfg - (now - l))"
  using assms by (auto simp: getRemainingTime_def stateOf_def truthy_def Let_def)

lemma isInCooldown_stateOf:
  "stateOf c s = Some st \<Longrightarrow> TimerService_isInCooldown c s = isInCooldown st"
  by (auto simp: stateOf_def TimerService_isInCooldown_def)

subsection \<open>Handles in reachable states\<close>

lemma handles_ok_cancelTimer: "handles_ok s \<Longrightarrow> handles_ok (cancelTimer c s)"
  by (auto simp: handles_ok_def cancelTimer_def split: option.splits if_splits)

lemma handles_ok_startResponseTimer:
  "handles_ok s \<Longrightarrow> handles_ok (startResponseTimer cfg now c cb s)"
  using handles_ok_cancelTimer [of s c]
  by (auto simp: handles_ok_def startResponseTimer_def Let_def split_def less_Suc_eq
        split: if_splits)

lemma handles_ok_startCooldown: "handles_ok s \<Longrightarrow> handles_ok (startCooldown now c d s)"
  by (cases "timers s c")
     (auto simp: handles_ok_def startCooldown_def Let_def split_def less_Suc_eq
        split: option.splits if_splits)

lemma handles_ok_emit: "handles_ok (emit e s) = handles_ok s"
  by (simp add: handles_ok_def)

lemma handles_ok_handleGiladResponse:
  "handles_ok s \<Longrightarrow> handles_ok (handleGiladResponse cfg now c s)"
  by (simp add: handleGiladResponse_def handles_ok_emit handles_ok_startCooldown
        handles_ok_cancelTimer)

lemma handles_ok_fire: "handles_ok s \<Longrightarrow> handles_ok (fire h s)"
proof (cases "pending s h")
  case None
  then show "handles_ok s \<Longrightarrow> handles_ok (fire h s)" by (simp add: fire_def)
next
  case (Some t)
  assume ok: "handles_ok s"
  from ok have ok': "handles_ok (s\<lparr>pending := (pending s)(h := None)\<rparr>)"
    by (auto simp: handles_ok_def split: if_splits)
  have "handles_ok (run cl s')" if "handles_ok s'" for cl s'
    using that
    by (cases cl)
       (auto simp: handles_ok_def responseExpiry_def responseExpiry_try_def Let_def
          split: option.splits callback.splits if_splits)
  with ok' Some show "handles_ok (fire h s)" by (simp add: fire_def)
qed

lemma handles_ok_isInCooldown_then:
  "handles_ok s \<Longrightarrow> handles_ok (isInCooldown_then now c captured s)"
  by (auto simp: handles_ok_def isInCooldown_then_def split: option.splits if_splits)

lemma handles_ok_restoreResponseTimer:
  "handles_ok s \<Longrightarrow> handles_ok (restoreResponseTimer k c t s)"
  by (cases "timers s c")
     (auto simp: handles_ok_def restoreResponseTimer_def Let_def split_def less_Suc_eq
        split: option.splits if_splits)

lemma handles_ok_restoreResponseTimers:
  "handles_ok s \<Longrightarrow> handles_ok (restoreResponseTimers k c ts s)"
  by (induction ts arbitrary: s) (simp_all add: handles_ok_restoreResponseTimer)

lemma handles_ok_restoreCooldown:
  "handles_ok s \<Longrightarrow> handles_ok (restoreCooldown cfg k c s)"
  by (auto simp: handles_ok_def restoreCooldown_def Let_def split_def less_Suc_eq
        split: if_splits)

lemma handles_ok_restoreLoop:
  "handles_ok s \<Longrightarrow> handles_ok (restoreLoop cfg clk convs s)"
  by (induction convs arbitrary: s)
     (simp_all add: restoreConversation_def Let_def handles_ok_restoreResponseTimers
        handles_ok_restoreCooldown)

lemma handles_ok_initializeService:
  "handles_ok s \<Longrightarrow> handles_ok (initializeService cfg clk s)"
  using handles_ok_restoreLoop [of s cfg clk "getActiveConversations (storage s)"]
  by (simp add: initializeService_def restoreTimersFromDatabase_def handles_ok_def)

lemma reachable_handles_ok: "reachable s \<Longrightarrow> handles_ok s"
proof (induction rule: reachable.induct)
  case (constructed db)
  show ?case by (simp add: handles_ok_def newTimerService_def blank_def)
qed (simp_all add: handles_ok_initializeService handles_ok_startResponseTimer
       handles_ok_startCooldown handles_ok_handleGiladResponse handles_ok_cancelTimer
       handles_ok_fire handles_ok_isInCooldown_then)

lemma reachable_tracked_allocated:
  "reachable s \<Longrightarrow> trackedResponse c s = Some h \<Longrightarrow> h < nextHandle s"
  using reachable_handles_ok [of s]
  by (auto simp: handles_ok_def trackedResponse_def split: option.splits)

text \<open>The scenarios are runs of the service.\<close>

lemma scenarios_reachable:
  "reachable scenario_started"
  "reachable scenario_two_timers_restarted"
  "reachable scenario_owner_replied_restarted"
  "reachable scenario_lapsed_cooldown_restarted"
  "reachable scenario_cooldown_then_timer"
  unfolding scenario_started_def scenario_two_timers_restarted_def
    scenario_owner_replied_restarted_def scenario_lapsed_cooldown_restarted_def
    scenario_cooldown_then_timer_def restart_def
  by (intro reachable.intros)+

section \<open>Results\<close>

subsection \<open>The owner's reply\<close>

text \<open>
  Whatever the state, \<open>handleGiladResponse\<close> leaves the conversation in cooldown, with no
  response handle referenced and the handle referenced before disarmed.
\<close>

lemma handleGiladResponse_enters_cooldown:
  "TimerService_isInCooldown c (handleGiladResponse cfg now c s)"
  by (simp add: TimerService_isInCooldown_def core_defs prim_defs Let_def
           split: option.splits prod.splits)

lemma handleGiladResponse_untracks:
  "trackedResponse c (handleGiladResponse cfg now c s) = None"
  by (simp add: trackedResponse_def core_defs prim_defs Let_def
           split: option.splits prod.splits)

text \<open>
  A response timeout of \<open>c\<close> that is armed after the call was armed before it and was not
  the one the state referenced: the call disarms the referenced timeout and arms none of
  this kind.
\<close>

lemma handleGiladResponse_keeps_only_unreferenced:
  assumes "pending (handleGiladResponse cfg now c s) h = Some t" and "forResponse c (closure t)"
  shows "pending s h = Some t \<and> trackedResponse c s \<noteq> Some h"
  using assms
  by (auto simp: handleGiladResponse_def startCooldown_def cancelTimer_def trackedResponse_def
        Let_def split_def split: option.splits if_splits)

text \<open>
  C1. After \<open>handleGiladResponse c\<close> the state of \<open>c\<close> has \<open>isInCooldown = true\<close>, and no
  response timer armed for \<open>c\<close> runs afterwards. The first half holds in every state
  (\<open>handleGiladResponse_enters_cooldown\<close>). The second half fails after a restart that
  found two active response rows of \<open>chatA\<close> in the ledger: recovery arms a timeout for
  each and keeps only the handle of the last, so the owner's reply disarms one and the
  other (handle \<open>0\<close>) stays armed and, run by the event loop, emits
  \<open>response_timer_expired\<close> for the conversation the owner has answered.
\<close>

theorem handleGiladResponse_leaves_restored_timer_armed:
  "TimerService_isInCooldown ''chatA''
     (handleGiladResponse scenario_config 1700000070000 ''chatA'' scenario_two_timers_restarted) \<and>
   pending (handleGiladResponse scenario_config 1700000070000 ''chatA'' scenario_two_timers_restarted) 0
     = Some \<lparr>closure = RestoredResponseExpiry ''chatA'', delay = 70000\<rparr> \<and>
   emittedSince scenario_two_timers_restarted
     (fire 0 (handleGiladResponse scenario_config 1700000070000 ''chatA'' scenario_two_timers_restarted))
     = [TIMER_CANCELLED ''chatA'', COOLDOWN_STARTED ''chatA'' 18000000,
        GILAD_RESPONDED ''chatA'', RESPONSE_TIMER_EXPIRED ''chatA'']"
  by (simp add: scenario_defs storage_defs prim_defs core_defs persist_defs recovery_defs
        TimerService_isInCooldown_def emittedSince_def fire_def Let_def)

subsection \<open>Cooldown supersedes the response timer\<close>

text \<open>
  \<open>startCooldown\<close> itself enters cooldown with no response handle referenced.
\<close>

lemma startCooldown_untracks:
  "trackedResponse c (startCooldown now c d s) = None \<and>
   TimerService_isInCooldown c (startCooldown now c d s)"
  by (simp add: trackedResponse_def TimerService_isInCooldown_def core_defs prim_defs Let_def
           split: option.splits prod.splits)

text \<open>
  Besides recovery, the ledger query that \<open>isInCooldown\<close> leaves running can set the flag
  of a state that references a response timer: here the cooldown row of \<open>chatA\<close> is still
  active in the ledger when \<open>startResponseTimer\<close> has replaced the state, the query
  answers \<open>false\<close>, and its continuation then sets the flag of the object it captured.
\<close>

lemma ledger_sync_sets_flag_beside_response_timer:
  "TimerService_isInCooldown ''chatA'' scenario_cooldown_then_timer = False \<and>
   stateOf ''chatA''
     (isInCooldown_then 1700000002000 ''chatA'' (timers scenario_cooldown_then_timer ''chatA'')
        scenario_cooldown_then_timer)
     = Some \<lparr>chatId = ''chatA'', responseTimer = Some 1, cooldownTimer = None,
             lastResponseTime = None, isInCooldown = True\<rparr>"
  by (simp add: scenario_defs storage_defs prim_defs core_defs persist_defs recovery_defs
        TimerService_isInCooldown_def isInCooldown_then_def stateOf_def Let_def)

text \<open>
  C3. Whenever \<open>isInCooldown\<close> is set the response handle is unset, and every operation,
  recovery included, keeps it so. Recovery does not: the ledger row of a response timer
  stays active when the timer is cancelled in memory (nothing calls \<open>endTimer\<close> then), so
  after the owner's reply and a restart recovery finds both an active cooldown row and
  an active response row of \<open>chatA\<close>, rebuilds the state in cooldown and then stores a
  newly armed response timeout in the same state.
\<close>

theorem restore_arms_response_timer_in_cooldown:
  "timers scenario_owner_replied_restarted ''chatA'' = Some 0 \<and>
   isInCooldown (heap scenario_owner_replied_restarted 0) = True \<and>
   responseTimer (heap scenario_owner_replied_restarted 0) = Some 1 \<and>
   pending scenario_owner_replied_restarted 1
     = Some \<lparr>closure = RestoredResponseExpiry ''chatA'', delay = 60000\<rparr>"
  by (simp add: scenario_defs storage_defs prim_defs core_defs persist_defs recovery_defs Let_def)

subsection \<open>Starting a response timer\<close>

text \<open>
  What the call does in every state: it stores a new state object whose only set field is
  the new response handle, disarms the timeout the old state referenced as response timer
  and arms the new one.
\<close>

lemma startResponseTimer_replaces_state:
  "timers (startResponseTimer cfg now c cb s) c = Some (nextRef s) \<and>
   heap (startResponseTimer cfg now c cb s) (nextRef s)
     = \<lparr>chatId = c, responseTimer = Some (nextHandle s), cooldownTimer = None,
        lastResponseTime = None, isInCooldown = False\<rparr> \<and>
   pending (startResponseTimer cfg now c cb s)
     = (case trackedResponse c s of None \<Rightarrow> pending s | Some h \<Rightarrow> (pending s)(h := None))
         (nextHandle s \<mapsto> \<lparr>closure = ResponseExpiry c cb, delay = responseDelayMs cfg\<rparr>)"
  by (auto simp add: trackedResponse_def core_defs prim_defs Let_def
           split: option.splits prod.splits)

text \<open>
  C4. \<open>startResponseTimer\<close> leaves \<open>isInCooldown\<close>, \<open>cooldownTimer\<close> and
  \<open>lastResponseTime\<close> of the conversation untouched, keeps at most one response timer
  armed per conversation, and no response callback scheduled before runs after the call.
  The code breaks the first part: where \<open>startCooldown\<close> and recovery take the state
  there is (\<open>this.timers.get(chatId) || ...\<close>), \<open>startResponseTimer\<close> stores a new
  object. On \<open>chatA\<close>, one second into a cooldown of five hours, the call wipes the
  flag, \<open>lastResponseTime\<close> and the cooldown handle; the cooldown timeout (handle \<open>0\<close>)
  stays armed with nothing referencing it, and the response timer (handle \<open>1\<close>), when
  it runs, emits \<open>response_timer_expired\<close> inside the owner's cooldown.
  The other two parts hold for the timeout the state references and fail with the
  defect of C1: after the restart that armed two response timeouts of \<open>chatA\<close>, the
  call disarms the referenced one (handle \<open>1\<close>) and arms handle \<open>2\<close>, and the
  unreferenced handle \<open>0\<close> is armed beside it.
\<close>

theorem startResponseTimer_wipes_cooldown:
  "stateOf ''chatA'' (startCooldown 1700000000000 ''chatA'' 18000000 scenario_started)
     = Some \<lparr>chatId = ''chatA'', responseTimer = None, cooldownTimer = Some 0,
             lastResponseTime = Some 1700000000000, isInCooldown = True\<rparr> \<and>
   stateOf ''chatA'' scenario_cooldown_then_timer
     = Some \<lparr>chatId = ''chatA'', responseTimer = Some 1, cooldownTimer = None,
             lastResponseTime = None, isInCooldown = False\<rparr> \<and>
   TimerService_isInCooldown ''chatA''
     (startCooldown 1700000000000 ''chatA'' 18000000 scenario_started) \<and>
   \<not> TimerService_isInCooldown ''chatA'' scenario_cooldown_then_timer \<and>
   pending scenario_cooldown_then_timer 0
     = Some \<lparr>closure = CooldownEnd 0 ''chatA'', delay = 18000000\<rparr> \<and>
   emittedSince scenario_started (fire 1 scenario_cooldown_then_timer)
     = [COOLDOWN_STARTED ''chatA'' 18000000, RESPONSE_TIMER_EXPIRED ''chatA''] \<and>
   pending
     (startResponseTimer scenario_config 1700000070000 ''chatA'' Fulfils
        scenario_two_timers_restarted) 0
     = Some \<lparr>closure = RestoredResponseExpiry ''chatA'', delay = 70000\<rparr> \<and>
   pending
     (startResponseTimer scenario_config 1700000070000 ''chatA'' Fulfils
        scenario_two_timers_restarted) 1 = None \<and>
   pending
     (startResponseTimer scenario_config 1700000070000 ''chatA'' Fulfils
        scenario_two_timers_restarted) 2
     = Some \<lparr>closure = ResponseExpiry ''chatA'' Fulfils, delay = 120000\<rparr>"
  by (simp add: scenario_defs storage_defs prim_defs core_defs persist_defs recovery_defs
        TimerService_isInCooldown_def stateOf_def emittedSince_def fire_defs Let_def)

subsection \<open>Order of the events of the owner's reply\<close>

text \<open>
  C5 as stated: \<open>handleGiladResponse\<close> emits \<open>gilad_responded\<close> before \<open>cooldown_started\<close>.
  On a conversation without state the call emits the two events the other way round.
\<close>

theorem handleGiladResponse_event_order_counterexample:
  "emittedSince scenario_started
     (handleGiladResponse scenario_config 1700000010000 ''chatA'' scenario_started)
     = [COOLDOWN_STARTED ''chatA'' 18000000, GILAD_RESPONDED ''chatA''] \<and>
   \<not> precedes (GILAD_RESPONDED ''chatA'') (COOLDOWN_STARTED ''chatA'' 18000000)
       (emittedSince scenario_started
          (handleGiladResponse scenario_config 1700000010000 ''chatA'' scenario_started))"
  by (simp add: scenario_defs storage_defs prim_defs core_defs persist_defs recovery_defs
        emittedSince_def precedes_def Let_def)

text \<open>
  C5 amended: \<open>handleGiladResponse c\<close> emits \<open>timer_cancelled\<close> when the state of \<open>c\<close>
  referenced a response timer, then \<open>cooldown_started\<close> with the configured cooldown
  period, then \<open>gilad_responded\<close>, and nothing else.
\<close>

theorem handleGiladResponse_events:
  "emitted (handleGiladResponse cfg now c s)
     = emitted s
       @ (case trackedResponse c s of None \<Rightarrow> [] | Some h \<Rightarrow> [TIMER_CANCELLED c])
       @ [COOLDOWN_STARTED c (cooldownPeriodMs cfg), GILAD_RESPONDED c]"
  by (simp add: trackedResponse_def core_defs prim_defs Let_def
           split: option.splits prod.splits)

subsection \<open>Requests before recovery has finished\<close>

text \<open>
  C6 as stated: no \<open>startResponseTimer\<close> or \<open>startCooldown\<close> takes effect before recovery
  has completed. On a service just constructed, whose recovery has not run and whose
  \<open>isReady\<close> answers \<open>false\<close>, \<open>startResponseTimer\<close> arms a timeout and stores the state
  of the conversation all the same.
\<close>

theorem startResponseTimer_before_recovery_counterexample:
  "\<not> isReady (newTimerService scenario_ledger) \<and>
   trackedResponse ''chatA''
     (startResponseTimer scenario_config 1700000000000 ''chatA'' Fulfils
        (newTimerService scenario_ledger)) = Some 0 \<and>
   pending
     (startResponseTimer scenario_config 1700000000000 ''chatA'' Fulfils
        (newTimerService scenario_ledger)) 0
     = Some \<lparr>closure = ResponseExpiry ''chatA'' Fulfils, delay = 120000\<rparr>"
  by (simp add: scenario_defs storage_defs prim_defs core_defs persist_defs
        isReady_def trackedResponse_def Let_def)

text \<open>
  C6 amended: the scheduling core has no gate. \<open>startResponseTimer\<close> and \<open>startCooldown\<close>
  do the same whether or not the service is initialised and leave the flag as it is;
  the service only reports through \<open>isReady\<close>, which answers \<open>false\<close> from construction
  and \<open>true\<close> once \<open>initializeService\<close> has run the recovery. Waiting for it is left to
  the caller.
\<close>

theorem start_calls_ignore_isInitialized:
  "startResponseTimer cfg now c cb (s\<lparr>isInitialized := b\<rparr>)
     = (startResponseTimer cfg now c cb s)\<lparr>isInitialized := b\<rparr> \<and>
   startCooldown now c d (s\<lparr>isInitialized := b\<rparr>)
     = (startCooldown now c d s)\<lparr>isInitialized := b\<rparr> \<and>
   isReady (newTimerService db) = False \<and>
   isReady (initializeService cfg clk s) = True"
  by (simp add: startResponseTimer_ignores_isInitialized startCooldown_ignores_isInitialized
        isReady_def newTimerService_def initializeService_def)

subsection \<open>Remaining time\<close>




subsection \<open>Cancelling\<close>

text \<open>
  \<open>cancelTimer\<close> touches the response timer only, and a second call changes nothing.
\<close>

lemma cancelTimer_idempotent:
  "cancelTimer c (cancelTimer c s) = cancelTimer c s"
  by (simp add: cancelTimer_def prim_defs split: option.splits)

lemma cancelTimer_keeps_cooldown:
  "TimerService_isInCooldown c (cancelTimer c s) = TimerService_isInCooldown c s"
  by (simp add: TimerService_isInCooldown_def cancelTimer_def prim_defs split: option.splits)

text \<open>
  C8. \<open>cancelTimer\<close> returns a boolean telling whether a timer was cancelled, and \<open>false\<close>
  when there was none. The method is declared \<open>void\<close>: the call that cancels the armed
  response timer of \<open>chatA\<close> (the timeout is disarmed and \<open>timer_cancelled\<close> emitted)
  evaluates to \<open>undefined\<close>, as does the second call, which changes nothing.
\<close>

theorem cancelTimer_returns_undefined:
  "pending (startResponseTimer scenario_config 1700000000000 ''chatA'' Fulfils scenario_started) 0
     = Some \<lparr>closure = ResponseExpiry ''chatA'' Fulfils, delay = 120000\<rparr> \<and>
   fst (cancelTimer_call ''chatA''
          (startResponseTimer scenario_config 1700000000000 ''chatA'' Fulfils scenario_started))
     = Undefined \<and>
   pending (snd (cancelTimer_call ''chatA''
          (startResponseTimer scenario_config 1700000000000 ''chatA'' Fulfils scenario_started))) 0
     = None \<and>
   emitted (snd (cancelTimer_call ''chatA''
          (startResponseTimer scenario_config 1700000000000 ''chatA'' Fulfils scenario_started)))
     = [TIMER_CANCELLED ''chatA''] \<and>
   cancelTimer_call ''chatA'' (snd (cancelTimer_call ''chatA''
          (startResponseTimer scenario_config 1700000000000 ''chatA'' Fulfils scenario_started)))
     = (Undefined, snd (cancelTimer_call ''chatA''
          (startResponseTimer scenario_config 1700000000000 ''chatA'' Fulfils scenario_started)))"
  by (simp add: scenario_defs storage_defs prim_defs core_defs persist_defs recovery_defs
        cancelTimer_call_def Let_def)

subsection \<open>A failing callback\<close>

text \<open>
  C9. When the callback handed to \<open>startResponseTimer\<close> fails as the timer of \<open>c\<close> runs,
  the failure is raised inside the \<open>try\<close> block and ends as one line on the console,
  and the whole state afterwards is the state before with three changes: the timeout is
  consumed, the object of \<open>c\<close> (if the map has one) no longer references a response timer
  (cleared before the callback is called), and the console has the line. So the timer map
  is the same, every other field of the object of \<open>c\<close> and every other object are the
  same, the other timeouts stay armed, and the ledger, the handle and reference counters
  and the emitted events are untouched. The timer map, the objects, the armed timeouts
  and the ledger are also the ones the same timer leaves when its callback succeeds; the
  event \<open>response_timer_expired\<close> is emitted only in the successful run.
\<close>

theorem callback_failure_is_absorbed:
  assumes "pending s h = Some \<lparr>closure = ResponseExpiry c Fails, delay = d\<rparr>"
  shows
   "(\<exists>s'. responseExpiry_try c Fails (s\<lparr>pending := (pending s)(h := None)\<rparr>) = Inl s' \<and>
          fire h s = console_error ''Error in response timer callback'' s') \<and>
    fire h s
      = s\<lparr>heap := (case timers s c of
                       None \<Rightarrow> heap s
                     | Some r \<Rightarrow> (heap s)(r := (heap s r)\<lparr>responseTimer := None\<rparr>)),
          pending := (pending s)(h := None),
          console := console s @ [''Error in response timer callback'']\<rparr> \<and>
    timers (fire h s) = timers s \<and>
    stateOf c (fire h s) = map_option (\<lambda>st. st\<lparr>responseTimer := None\<rparr>) (stateOf c s) \<and>
    (\<forall>r. timers s c \<noteq> Some r \<longrightarrow> heap (fire h s) r = heap s r) \<and>
    console (fire h s) = console s @ [''Error in response timer callback''] \<and>
    emitted (fire h s) = emitted s \<and>
    pending (fire h s) = (pending s)(h := None) \<and>
    trackedResponse c (fire h s) = None \<and>
    (\<forall>s\<^sub>o\<^sub>k. s\<^sub>o\<^sub>k = fire h (s\<lparr>pending := (pending s)(h \<mapsto> \<lparr>closure = ResponseExpiry c Fulfils, delay = d\<rparr>)\<rparr>) \<longrightarrow>
       timers (fire h s) = timers s\<^sub>o\<^sub>k \<and> heap (fire h s) = heap s\<^sub>o\<^sub>k \<and>
       pending (fire h s) = pending s\<^sub>o\<^sub>k \<and> storage (fire h s) = storage s\<^sub>o\<^sub>k \<and>
       emitted s\<^sub>o\<^sub>k = emitted s @ [RESPONSE_TIMER_EXPIRED c])"
  using assms
  by (cases "timers s c")
     (simp_all add: fire_def responseExpiry_def responseExpiry_try_def trackedResponse_def
        stateOf_def prim_defs Let_def)

theorem callback_failure_is_absorbed_witness:
  "pending scenario_failing_timer_in_cooldown 1
     = Some \<lparr>closure = ResponseExpiry ''chatA'' Fails, delay = 120000\<rparr> \<and>
   stateOf ''chatA'' scenario_failing_timer_in_cooldown
     = Some \<lparr>chatId = ''chatA'', responseTimer = Some 1, cooldownTimer = None,
             lastResponseTime = None, isInCooldown = True\<rparr> \<and>
   stateOf ''chatA'' (fire 1 scenario_failing_timer_in_cooldown)
     = Some \<lparr>chatId = ''chatA'', responseTimer = None, cooldownTimer = None,
             lastResponseTime = None, isInCooldown = True\<rparr> \<and>
   timers (fire 1 scenario_failing_timer_in_cooldown) ''chatA'' = Some 1 \<and>
   pending (fire 1 scenario_failing_timer_in_cooldown) 0
     = Some \<lparr>closure = CooldownEnd 0 ''chatA'', delay = 18000000\<rparr> \<and>
   pending (fire 1 scenario_failing_timer_in_cooldown) 1 = None \<and>
   console (fire 1 scenario_failing_timer_in_cooldown)
     = [''Error in response timer callback''] \<and>
   emitted (fire 1 scenario_failing_timer_in_cooldown)
     = [COOLDOWN_STARTED ''chatA'' 18000000]"
proof -
  let ?s = "scenario_failing_timer_in_cooldown"
  have p: "pending ?s 1 = Some \<lparr>closure = ResponseExpiry ''chatA'' Fails, delay = 120000\<rparr>"
    by (simp add: scenario_defs storage_defs prim_defs core_defs persist_defs recovery_defs
          isInCooldown_then_def Let_def)
  have st: "stateOf ''chatA'' ?s
              = Some \<lparr>chatId = ''chatA'', responseTimer = Some 1, cooldownTimer = None,
                      lastResponseTime = None, isInCooldown = True\<rparr>"
    by (simp add: scenario_defs storage_defs prim_defs core_defs persist_defs recovery_defs
          isInCooldown_then_def stateOf_def Let_def)
  have t: "timers ?s ''chatA'' = Some 1"
    by (simp add: scenario_defs storage_defs prim_defs core_defs persist_defs recovery_defs
          isInCooldown_then_def Let_def)
  have p0: "pending ?s 0 = Some \<lparr>closure = CooldownEnd 0 ''chatA'', delay = 18000000\<rparr>"
    by (simp add: scenario_defs storage_defs prim_defs core_defs persist_defs recovery_defs
          isInCooldown_then_def Let_def)
  have k: "console ?s = []"
    by (simp add: scenario_defs storage_defs prim_defs core_defs persist_defs recovery_defs
          isInCooldown_then_def Let_def)
  have e: "emitted ?s = [COOLDOWN_STARTED ''chatA'' 18000000]"
    by (simp add: scenario_defs storage_defs prim_defs core_defs persist_defs recovery_defs
          isInCooldown_then_def Let_def)
  from callback_failure_is_absorbed [OF p]
  have a: "stateOf ''chatA'' (fire 1 ?s)
             = map_option (\<lambda>st. st\<lparr>responseTimer := None\<rparr>) (stateOf ''chatA'' ?s)"
    and b: "timers (fire 1 ?s) = timers ?s"
    and c: "pending (fire 1 ?s) = (pending ?s)(1 := None)"
    and d: "console (fire 1 ?s) = console ?s @ [''Error in response timer callback'']"
    and f: "emitted (fire 1 ?s) = emitted ?s"
    by blast+
  from a st have "stateOf ''chatA'' (fire 1 ?s)
             = Some \<lparr>chatId = ''chatA'', responseTimer = None, cooldownTimer = None,
                     lastResponseTime = None, isInCooldown = True\<rparr>"
    by simp
  moreover from b t have "timers (fire 1 ?s) ''chatA'' = Some 1" by simp
  moreover from c p0 have "pending (fire 1 ?s) 0
             = Some \<lparr>closure = CooldownEnd 0 ''chatA'', delay = 18000000\<rparr>"
    by simp
  moreover from c have "pending (fire 1 ?s) 1 = None" by simp
  moreover from d k have "console (fire 1 ?s) = [''Error in response timer callback'']" by simp
  moreover from f e have "emitted (fire 1 ?s) = [COOLDOWN_STARTED ''chatA'' 18000000]" by simp
  ultimately show ?thesis using p st by blast
qed

subsection \<open>Queries on a conversation without state\<close>

text \<open>
  C10. For a conversation that has no entry in the timer map, \<open>isInCooldown\<close> returns
  \<open>false\<close> and \<open>getRemainingTime\<close> returns \<open>0\<close>; neither has a failing path, and the
  ledger query \<open>isInCooldown\<close> leaves running changes nothing when it settles, since
  it captured no state object.
\<close>

theorem queries_neutral_without_state:
  assumes "timers s c = None"
  shows "TimerService_isInCooldown c s = False \<and>
         getRemainingTime cfg now c s = 0 \<and>
         isInCooldown_then now' c (timers s c) s' = s'"
  using assms
  by (simp add: TimerService_isInCooldown_def getRemainingTime_def isInCooldown_then_def)

theorem queries_neutral_without_state_witness:
  "timers scenario_started ''chatB'' = None \<and>
   TimerService_isInCooldown ''chatB'' scenario_started = False \<and>
   getRemainingTime scenario_config 1700000000000 ''chatB'' scenario_started = 0"
proof -
  have n: "timers scenario_started ''chatB'' = None"
    by (simp add: scenario_defs storage_defs prim_defs recovery_defs Let_def)
  from queries_neutral_without_state [OF n, of scenario_config 1700000000000] n
  show ?thesis by simp
qed

subsection \<open>Recovery of a cooldown\<close>

text \<open>
  C2 as stated: when the cooldown row of \<open>c\<close> has lapsed, recovery marks it inactive.
  After a cooldown of thirty seconds and a restart a minute later the conversation is not
  in cooldown, but its row in the ledger is as active as before the restart.
\<close>

theorem recovery_lapsed_row_counterexample:
  "\<not> TimerService_isInCooldown ''chatA'' scenario_lapsed_cooldown_restarted \<and>
   cooldowns (storage scenario_lapsed_cooldown_restarted)
     = [\<lparr>cd_id = 1, cd_conversation_id = 1, cd_start_time = 1700000000,
         cd_end_time = 1700000030, cd_is_active = True\<rparr>]"
  by (simp add: scenario_defs storage_defs prim_defs core_defs persist_defs recovery_defs
        TimerService_isInCooldown_def Let_def)

text \<open>
  C2 amended. Let \<open>c\<close> be a conversation of the ledger with status \<open>active\<close> and one active
  cooldown row, and let recovery run on a new service, reading the clock for \<open>c\<close> at
  \<open>t1\<close> inside \<open>storage.isInCooldown\<close>, then at \<open>t2\<close> inside
  \<open>storage.getRemainingCooldownTime\<close>, then at \<open>t3\<close> when it builds the state.

  If the row ends after \<open>t2\<close> (and \<open>t3\<close> is at least one cooldown period past the epoch),
  then afterwards \<open>c\<close> is in cooldown and the remaining time, asked at any time \<open>now'\<close>,
  is the time left to the row's end plus \<open>(t3 - t2) + t2 mod 1000\<close>, floored at \<open>0\<close>:
  the answer exceeds the persisted remaining time by the part of a second the ledger drops
  and by the time recovery took between the ledger query and the state, so by less than
  one second plus that latency.

  If the row ended at or before \<open>t2\<close>, then afterwards \<open>c\<close> is not in cooldown, no
  cooldown-end task is armed for it, and recovery has written no cooldown row: the lapsed
  row keeps its active flag.
\<close>

theorem recovery_round_trip:
  assumes "getConversation c db = Some conv"
    and "status conv = Active"
    and "filter (\<lambda>r. cd_conversation_id r = conv_id conv \<and> cd_is_active r) (cooldowns db) = [row]"
  shows
    "(atIsInCooldown (clk c) \<le> atRemaining (clk c) \<and> atRemaining (clk c) \<le> atBuild (clk c) \<and>
      atRemaining (clk c) < cd_end_time row * 1000 \<and> cooldownPeriodMs cfg \<le> atBuild (clk c) \<longrightarrow>
        TimerService_isInCooldown c (initializeService cfg clk (newTimerService db)) \<and>
        (\<forall>now'. getRemainingTime cfg now' c (initializeService cfg clk (newTimerService db))
                  = max 0 (cd_end_time row * 1000 - now'
                             + (atBuild (clk c) - atRemaining (clk c) + atRemaining (clk c) mod 1000))) \<and>
        0 \<le> getRemainingTime cfg (atBuild (clk c)) c (initializeService cfg clk (newTimerService db))
               - (cd_end_time row * 1000 - atBuild (clk c)) \<and>
        getRemainingTime cfg (atBuild (clk c)) c (initializeService cfg clk (newTimerService db))
          - (cd_end_time row * 1000 - atBuild (clk c))
          < 1000 + (atBuild (clk c) - atRemaining (clk c))) \<and>
     (cd_end_time row * 1000 \<le> atRemaining (clk c) \<longrightarrow>
        \<not> TimerService_isInCooldown c (initializeService cfg clk (newTimerService db)) \<and>
        RestoredCooldownEnd c \<notin> armed (initializeService cfg clk (newTimerService db)) \<and>
        cooldowns (storage (initializeService cfg clk (newTimerService db))) = cooldowns db \<and>
        cd_is_active row)"
proof (intro conjI impI)
  let ?s = "initializeService cfg clk (newTimerService db)"
  let ?loop = "restoreLoop cfg clk (getActiveConversations db) (newTimerService db)"
  let ?t1 = "atIsInCooldown (clk c)" and ?t2 = "atRemaining (clk c)" and ?t3 = "atBuild (clk c)"
  have loop: "restoreTimersFromDatabase cfg clk (newTimerService db) = ?loop"
    by (simp add: restoreTimersFromDatabase_def newTimerService_def)
  from assms(3) have "row \<in> set (filter (\<lambda>r. cd_conversation_id r = conv_id conv \<and> cd_is_active r)
                                      (cooldowns db))"
    by simp
  then have active: "cd_is_active row" by simp
  {
    assume live: "?t1 \<le> ?t2 \<and> ?t2 \<le> ?t3 \<and> ?t2 < cd_end_time row * 1000 \<and>
                  cooldownPeriodMs cfg \<le> ?t3"
    let ?rem = "(cd_end_time row - ?t2 div 1000) * 1000"
    let ?l = "?t3 - (cooldownPeriodMs cfg - ?rem)"
    let ?x = "?t3 - ?t2 + ?t2 mod 1000"
    from live have lt2: "?t2 < cd_end_time row * 1000" and lt1: "?t1 < cd_end_time row * 1000"
      and epoch: "cooldownPeriodMs cfg \<le> ?t3" and order: "?t2 \<le> ?t3"
      by simp_all
    note q1 = ledger_live [OF assms(1,3) lt1]
    note q2 = ledger_live [OF assms(1,3) lt2]
    from q2(2,3) have pos: "0 < storage_getRemainingCooldownTime ?t2 c db" by simp
    from restoreLoop_live [where clk = clk and c = c and db = db
                             and convs = "getActiveConversations db" and cfg = cfg,
                           OF q1(1) pos newTimerService_facts(1,2)]
         active_conversation_is_restored [OF assms(1,2)] q2(2)
    obtain st where st: "stateOf c ?loop = Some st" "isInCooldown st"
                        "lastResponseTime st = Some ?l"
      by auto
    from st(1) have st': "stateOf c ?s = Some st"
      by (simp add: initializeService_fields loop)
    from q2(3) epoch have l0: "?l \<noteq> 0" by linarith
    show "TimerService_isInCooldown c ?s"
      using isInCooldown_stateOf [OF st'] st(2) by simp
    have rt: "getRemainingTime cfg now' c ?s = max 0 (cd_end_time row * 1000 - now' + ?x)"
      for now'
    proof -
      have "cooldownPeriodMs cfg - (now' - ?l) = cd_end_time row * 1000 - now' + ?x"
        by (simp add: algebra_simps minus_mult_div_eq_mod [symmetric])
      with getRemainingTime_in_cooldown [OF st' st(2,3) l0, of cfg now'] show ?thesis by simp
    qed
    then show "\<forall>now'. getRemainingTime cfg now' c ?s
                        = max 0 (cd_end_time row * 1000 - now' + ?x)"
      by blast
    have "cd_end_time row * 1000 - ?t3 + ?x = ?rem"
      by (simp add: algebra_simps minus_mult_div_eq_mod [symmetric])
    with q2(3) have "0 \<le> cd_end_time row * 1000 - ?t3 + ?x" by simp
    with rt [of ?t3]
    have eq: "getRemainingTime cfg ?t3 c ?s = cd_end_time row * 1000 - ?t3 + ?x"
      by simp
    from order show "0 \<le> getRemainingTime cfg ?t3 c ?s - (cd_end_time row * 1000 - ?t3)"
      by (simp add: eq)
    show "getRemainingTime cfg ?t3 c ?s - (cd_end_time row * 1000 - ?t3) < 1000 + (?t3 - ?t2)"
      by (simp add: eq)
  }
  {
    assume lapsed: "cd_end_time row * 1000 \<le> ?t2"
    from ledger_lapsed_remaining [OF assms(1,3) lapsed]
    have q: "\<not> (storage_isInCooldown ?t1 c db \<and> 0 < storage_getRemainingCooldownTime ?t2 c db)"
      by simp
    from restoreLoop_lapsed [where clk = clk and c = c and db = db
                               and convs = "getActiveConversations db" and cfg = cfg,
                             OF q newTimerService_facts(1,2,3)]
    have r: "\<not> TimerService_isInCooldown c ?loop" "RestoredCooldownEnd c \<notin> armed ?loop"
      by (simp_all add: newTimerService_facts(4))
    from r(1) show "\<not> TimerService_isInCooldown c ?s"
      by (simp add: initializeService_fields loop)
    from r(2) show "RestoredCooldownEnd c \<notin> armed ?s"
      by (simp add: initializeService_fields loop)
    from restoreLoop_storage [OF newTimerService_facts(1),
                              where convs = "getActiveConversations db" and cfg = cfg and clk = clk]
    show "cooldowns (storage ?s) = cooldowns db"
      by (simp add: initializeService_fields loop same_cooldowns_def)
    show "cd_is_active row" by (rule active)
  }
qed

text \<open>
  The two ledgers the theorem is applied to below are the ones \<open>startCooldown\<close> writes
  for a cooldown of five hours and for one of thirty seconds.
\<close>

lemma scenario_ledger_with_cooldown_written:
  "storage (startCooldown 1700000000000 ''chatA'' 18000000 scenario_started)
     = scenario_ledger_with_cooldown 1700018000"
  "storage (startCooldown 1700000000000 ''chatA'' 30000 scenario_started)
     = scenario_ledger_with_cooldown 1700000030"
  by (simp_all add: scenario_defs scenario_ledger_with_cooldown_def storage_defs prim_defs
        core_defs persist_defs recovery_defs Let_def)

theorem recovery_round_trip_witness:
  "getConversation ''chatA'' (scenario_ledger_with_cooldown 1700018000)
     = Some \<lparr>conv_id = 1, chat_id = ''chatA'', status = Active, last_activity = 1700000000\<rparr> \<and>
   atIsInCooldown (scenario_slow_clock ''chatA'') \<le> atRemaining (scenario_slow_clock ''chatA'') \<and>
   atRemaining (scenario_slow_clock ''chatA'') \<le> atBuild (scenario_slow_clock ''chatA'') \<and>
   atRemaining (scenario_slow_clock ''chatA'') < 1700018000 * 1000 \<and>
   cooldownPeriodMs scenario_config \<le> atBuild (scenario_slow_clock ''chatA'') \<and>
   TimerService_isInCooldown ''chatA''
     (initializeService scenario_config scenario_slow_clock
        (newTimerService (scenario_ledger_with_cooldown 1700018000))) \<and>
   getRemainingTime scenario_config 1700000060530 ''chatA''
     (initializeService scenario_config scenario_slow_clock
        (newTimerService (scenario_ledger_with_cooldown 1700018000))) = 17940000 \<and>
   (17940000::int) - (1700018000 * 1000 - 1700000060530) = 530 \<and>
   (1700000030::int) * 1000 \<le> atRemaining (scenario_slow_clock ''chatA'') \<and>
   \<not> TimerService_isInCooldown ''chatA''
     (initializeService scenario_config scenario_slow_clock
        (newTimerService (scenario_ledger_with_cooldown 1700000030))) \<and>
   cooldowns (storage (initializeService scenario_config scenario_slow_clock
        (newTimerService (scenario_ledger_with_cooldown 1700000030))))
     = cooldowns (scenario_ledger_with_cooldown 1700000030)"
proof -
  let ?conv = "\<lparr>conv_id = 1, chat_id = ''chatA'', status = Active, last_activity = 1700000000\<rparr>"
  let ?row = "\<lambda>e. \<lparr>cd_id = 1, cd_conversation_id = 1, cd_start_time = 1700000000,
                   cd_end_time = e, cd_is_active = True\<rparr>"
  let ?k = "scenario_slow_clock ''chatA''"
  have conv: "getConversation ''chatA'' (scenario_ledger_with_cooldown e) = Some ?conv" for e
    by (simp add: getConversation_def scenario_ledger_with_cooldown_def scenario_ledger_def)
  have act: "status ?conv = Active" by simp
  have rows: "filter (\<lambda>r. cd_conversation_id r = conv_id ?conv \<and> cd_is_active r)
                 (cooldowns (scenario_ledger_with_cooldown e)) = [?row e]" for e
    by (simp add: scenario_ledger_with_cooldown_def scenario_ledger_def)
  have k: "atIsInCooldown ?k = 1700000060500" "atRemaining ?k = 1700000060520"
          "atBuild ?k = 1700000060530"
    by (simp_all add: scenario_slow_clock_def)
  have live: "atIsInCooldown ?k \<le> atRemaining ?k \<and> atRemaining ?k \<le> atBuild ?k \<and>
              atRemaining ?k < cd_end_time (?row 1700018000) * 1000 \<and>
              cooldownPeriodMs scenario_config \<le> atBuild ?k"
    by (simp add: k scenario_config_def)
  have lapsed: "cd_end_time (?row 1700000030) * 1000 \<le> atRemaining ?k"
    by (simp add: k)
  from recovery_round_trip [OF conv act rows, of scenario_slow_clock 1700018000 scenario_config] live
  have a: "TimerService_isInCooldown ''chatA''
             (initializeService scenario_config scenario_slow_clock
                (newTimerService (scenario_ledger_with_cooldown 1700018000)))"
    and b: "getRemainingTime scenario_config 1700000060530 ''chatA''
             (initializeService scenario_config scenario_slow_clock
                (newTimerService (scenario_ledger_with_cooldown 1700018000))) = 17940000"
    by (simp_all add: k)
  from recovery_round_trip [OF conv act rows, of scenario_slow_clock 1700000030 scenario_config] lapsed
  have c: "\<not> TimerService_isInCooldown ''chatA''
             (initializeService scenario_config scenario_slow_clock
                (newTimerService (scenario_ledger_with_cooldown 1700000030)))"
    and d: "cooldowns (storage (initializeService scenario_config scenario_slow_clock
                (newTimerService (scenario_ledger_with_cooldown 1700000030))))
              = cooldowns (scenario_ledger_with_cooldown 1700000030)"
    by simp_all
  from conv [of 1700018000] live lapsed a b c d show ?thesis by simp
qed

end
